theory Spec2Isabelle
  imports Complex_Main "HOL-Library.AList"
begin

section \<open>Tensors, devices and errors\<close>

text \<open>
  The networks of \<^verbatim>\<open>mjrl/utils/fc_network.py\<close> compute on torch tensors. A tensor is
  modelled by the device it lives on, its shape and its entries. Entries are real
  numbers: the model idealises single-precision floats, so it says nothing about
  rounding, overflow, infinities or NaN; where a property rests on rounding, the
  network is given once more over an arithmetic that is a parameter. Two ranks
  occur: the boundary vectors and the biases are one-dimensional, the batches and
  the weight matrices two-dimensional. A two-dimensional tensor keeps its number of
  columns beside its rows, so that an empty batch still has a width, as in torch.
\<close>

datatype device = CPU | CUDA nat

datatype error =
    AssertionError
  | DeviceMismatch
  | ShapeMismatch
  | IndexError
  | ValueError
  | TypeError
  | FileNotFoundError
  | IterationMismatch nat

record 'a tensor1_of =
  dev1 :: device
  data1 :: "'a list"

record 'a tensor2_of =
  dev2 :: device
  ncols :: nat
  rows2 :: "'a list list"

type_synonym tensor1 = "real tensor1_of"

type_synonym tensor2 = "real tensor2_of"

definition is_cuda :: "'a tensor2_of \<Rightarrow> bool" where
  "is_cuda x = (case dev2 x of CPU \<Rightarrow> False | CUDA _ \<Rightarrow> True)"

definition tensor1_to :: "device \<Rightarrow> 'a tensor1_of \<Rightarrow> 'a tensor1_of" where
  "tensor1_to d v = v\<lparr>dev1 := d\<rparr>"

definition tensor2_to :: "device \<Rightarrow> 'a tensor2_of \<Rightarrow> 'a tensor2_of" where
  "tensor2_to d x = x\<lparr>dev2 := d\<rparr>"

text \<open>Sequencing of steps that may raise: the first error ends the computation.\<close>

definition and_then :: "error + 'a \<Rightarrow> ('a \<Rightarrow> error + 'b) \<Rightarrow> error + 'b" where
  "and_then r f = (case r of Inl e \<Rightarrow> Inl e | Inr a \<Rightarrow> f a)"

text \<open>
  Elementwise arithmetic of a batch \<open>[N, w]\<close> with a vector \<open>[k]\<close> broadcasts along the
  last dimension: the widths must agree or one of them must be 1. Operands on
  different devices raise.
\<close>

definition broadcast_width :: "nat \<Rightarrow> nat \<Rightarrow> nat option" where
  "broadcast_width w k =
     (if w = k then Some w else if k = 1 then Some w else if w = 1 then Some k else None)"

definition broadcast_row :: "('a \<Rightarrow> 'a \<Rightarrow> 'a) \<Rightarrow> 'a list \<Rightarrow> 'a list \<Rightarrow> 'a list" where
  "broadcast_row f r v =
     (if length r = length v then map2 f r v
      else if length v = 1 then map (\<lambda>a. f a (hd v)) r
      else map (\<lambda>b. f (hd r) b) v)"

definition elementwise ::
  "('a \<Rightarrow> 'a \<Rightarrow> 'a) \<Rightarrow> 'a tensor2_of \<Rightarrow> 'a tensor1_of \<Rightarrow> error + 'a tensor2_of" where
  "elementwise f x v =
     (case broadcast_width (ncols x) (length (data1 v)) of
        None \<Rightarrow> Inl ShapeMismatch
      | Some w \<Rightarrow>
          if dev2 x \<noteq> dev1 v then Inl DeviceMismatch
          else Inr \<lparr>dev2 = dev2 x, ncols = w,
                    rows2 = map (\<lambda>r. broadcast_row f r (data1 v)) (rows2 x)\<rparr>)"

definition tensor_sub :: "tensor2 \<Rightarrow> tensor1 \<Rightarrow> error + tensor2" where
  "tensor_sub = elementwise (\<lambda>a b. a - b)"

definition tensor_div :: "tensor2 \<Rightarrow> tensor1 \<Rightarrow> error + tensor2" where
  "tensor_div = elementwise (\<lambda>a b. a / b)"

definition tensor_mul :: "tensor2 \<Rightarrow> tensor1 \<Rightarrow> error + tensor2" where
  "tensor_mul = elementwise (\<lambda>a b. a * b)"

definition tensor_add :: "tensor2 \<Rightarrow> tensor1 \<Rightarrow> error + tensor2" where
  "tensor_add = elementwise (\<lambda>a b. a + b)"

definition add_scalar :: "tensor1 \<Rightarrow> real \<Rightarrow> tensor1" where
  "add_scalar v c = v\<lparr>data1 := map (\<lambda>a. a + c) (data1 v)\<rparr>"

definition zeros :: "nat \<Rightarrow> tensor1" where
  "zeros n = \<lparr>dev1 = CPU, data1 = replicate n 0\<rparr>"

definition ones :: "nat \<Rightarrow> tensor1" where
  "ones n = \<lparr>dev1 = CPU, data1 = replicate n 1\<rparr>"

definition from_numpy :: "real list \<Rightarrow> tensor1" where
  "from_numpy xs = \<lparr>dev1 = CPU, data1 = xs\<rparr>"

section \<open>Layers\<close>

text \<open>
  \<^verbatim>\<open>nn.Linear(n, m)\<close> owns a weight of shape \<open>[m, n]\<close> and a bias of shape \<open>[m]\<close>, and
  maps a batch \<open>[N, n]\<close> to \<open>[N, m]\<close>: every row \<open>r\<close> goes to the vector of
  \<open>w \<bullet> r + b\<close> over the weight rows \<open>w\<close> and their biases \<open>b\<close>. The observers
  attached with \<^verbatim>\<open>register_forward_hook\<close> are kept in attachment order; the closure
  that \<^verbatim>\<open>hook_fn\<close> returns is determined by the layer name it captures.
\<close>

datatype hook = Hook string

record 'a linear_of =
  weight :: "'a tensor2_of"
  bias :: "'a tensor1_of"
  forward_hooks :: "hook list"

type_synonym linear = "real linear_of"

definition dot :: "real list \<Rightarrow> real list \<Rightarrow> real" where
  "dot w r = sum_list (map2 (\<lambda>a b. a * b) w r)"

definition affine_row :: "linear \<Rightarrow> real list \<Rightarrow> real list" where
  "affine_row l r = map2 (\<lambda>w b. dot w r + b) (rows2 (weight l)) (data1 (bias l))"

definition linear_forward :: "linear \<Rightarrow> tensor2 \<Rightarrow> error + tensor2" where
  "linear_forward l x =
     (if dev2 x \<noteq> dev2 (weight l) \<or> dev2 x \<noteq> dev1 (bias l) then Inl DeviceMismatch
      else if ncols x \<noteq> ncols (weight l) then Inl ShapeMismatch
      else Inr \<lparr>dev2 = dev2 x, ncols = length (rows2 (weight l)),
                rows2 = map (affine_row l) (rows2 x)\<rparr>)"

definition linear_to :: "device \<Rightarrow> linear \<Rightarrow> linear" where
  "linear_to d l = l\<lparr>weight := tensor2_to d (weight l), bias := tensor1_to d (bias l)\<rparr>"

datatype nonlin = Relu | Tanh

fun activation :: "nonlin \<Rightarrow> real \<Rightarrow> real" where
  "activation Relu a = max 0 a"
| "activation Tanh a = tanh a"

definition apply_nonlinearity :: "nonlin \<Rightarrow> tensor2 \<Rightarrow> tensor2" where
  "apply_nonlinearity nl x = x\<lparr>rows2 := map (map (activation nl)) (rows2 x)\<rparr>"

text \<open>
  A fresh \<^verbatim>\<open>nn.Linear\<close> lives on the CPU and has no observers. Its entries are drawn
  at random by torch; the model takes them from an initializer, a function of the
  layer's position and the entry's indices, so that the shapes are right by
  construction.
\<close>

record initializer =
  init_weight :: "nat \<Rightarrow> nat \<Rightarrow> nat \<Rightarrow> real"
  init_bias :: "nat \<Rightarrow> nat \<Rightarrow> real"

definition nn_Linear :: "initializer \<Rightarrow> nat \<Rightarrow> nat \<Rightarrow> nat \<Rightarrow> linear" where
  "nn_Linear ini i n m =
     \<lparr>weight = \<lparr>dev2 = CPU, ncols = n,
                 rows2 = map (\<lambda>r. map (init_weight ini i r) [0..<n]) [0..<m]\<rparr>,
      bias = \<lparr>dev1 = CPU, data1 = map (init_bias ini i) [0..<m]\<rparr>,
      forward_hooks = []\<rparr>"

section \<open>FCNetwork\<close>

text \<open>
  \<^verbatim>\<open>hidden_sizes\<close> may be any Python sequence; the constructor asserts that it is a
  tuple. Dimensions are natural numbers (torch refuses a negative size). The
  nonlinearity is passed by name. The four normalization vectors are optional.
  The attribute \<^verbatim>\<open>device\<close> does not exist until \<^verbatim>\<open>to\<close> has been called. The
  tensorboard writer is an external sink, of which the model keeps the directory.
\<close>

datatype pyseq = PyTuple "nat list" | PyList "nat list"

fun elements :: "pyseq \<Rightarrow> nat list" where
  "elements (PyTuple xs) = xs"
| "elements (PyList xs) = xs"

fun is_tuple :: "pyseq \<Rightarrow> bool" where
  "is_tuple (PyTuple xs) = True"
| "is_tuple (PyList xs) = False"

record transformations_dict =
  t_in_shift :: "real list option"
  t_in_scale :: "real list option"
  t_out_shift :: "real list option"
  t_out_scale :: "real list option"

record 'a FCNetwork_of =
  obs_dim :: nat
  act_dim :: nat
  layer_sizes :: "nat list"
  transformations :: transformations_dict
  in_shift :: "'a tensor1_of"
  in_scale :: "'a tensor1_of"
  out_shift :: "'a tensor1_of"
  out_scale :: "'a tensor1_of"
  fc_layers :: "'a linear_of list"
  nonlinearity :: nonlin
  activations :: "(string \<times> 'a list list) list"
  log_dir :: string
  device :: "device option"

type_synonym FCNetwork = "real FCNetwork_of"

definition set_transformations ::
  "real list option \<Rightarrow> real list option \<Rightarrow> real list option \<Rightarrow> real list option \<Rightarrow>
   FCNetwork \<Rightarrow> FCNetwork" where
  "set_transformations ish isc osh osc self =
     self\<lparr>transformations :=
            \<lparr>t_in_shift = ish, t_in_scale = isc, t_out_shift = osh, t_out_scale = osc\<rparr>,
          in_shift := (case ish of Some v \<Rightarrow> from_numpy v | None \<Rightarrow> zeros (obs_dim self)),
          in_scale := (case isc of Some v \<Rightarrow> from_numpy v | None \<Rightarrow> ones (obs_dim self)),
          out_shift := (case osh of Some v \<Rightarrow> from_numpy v | None \<Rightarrow> zeros (act_dim self)),
          out_scale := (case osc of Some v \<Rightarrow> from_numpy v | None \<Rightarrow> ones (act_dim self))\<rparr>"

definition resolve_nonlinearity :: "string \<Rightarrow> nonlin" where
  "resolve_nonlinearity name = (if name = ''relu'' then Relu else Tanh)"

definition make_layers :: "initializer \<Rightarrow> nat list \<Rightarrow> linear list" where
  "make_layers ini sizes =
     map (\<lambda>i. nn_Linear ini i (sizes ! i) (sizes ! (i + 1))) [0..<length sizes - 1]"

definition FCNetwork_init ::
  "initializer \<Rightarrow> nat \<Rightarrow> nat \<Rightarrow> pyseq \<Rightarrow> string \<Rightarrow>
   real list option \<Rightarrow> real list option \<Rightarrow> real list option \<Rightarrow> real list option \<Rightarrow>
   string \<Rightarrow> error + FCNetwork" where
  "FCNetwork_init ini obs act hidden_sizes nl ish isc osh osc dir =
     (if \<not> is_tuple hidden_sizes then Inl AssertionError
      else
        let sizes = [obs] @ elements hidden_sizes @ [act];
            self = set_transformations ish isc osh osc
                     \<lparr>obs_dim = obs, act_dim = act, layer_sizes = sizes,
                      transformations = \<lparr>t_in_shift = None, t_in_scale = None,
                                         t_out_shift = None, t_out_scale = None\<rparr>,
                      in_shift = zeros 0, in_scale = zeros 0,
                      out_shift = zeros 0, out_scale = zeros 0,
                      fc_layers = [], nonlinearity = Tanh, activations = [],
                      log_dir = dir, device = None\<rparr>
        in Inr (self\<lparr>fc_layers := make_layers ini sizes,
                      nonlinearity := resolve_nonlinearity nl,
                      activations := [],
                      log_dir := dir\<rparr>))"

text \<open>
  \<^verbatim>\<open>forward\<close>: an input on a CUDA device is copied to the CPU, any other input is
  taken as it is. The loop \<^verbatim>\<open>for i in range(len(self.fc_layers) - 1)\<close> runs over the
  indices of all layers but the last; \<^verbatim>\<open>self.fc_layers[-1]\<close> raises on an empty list.
\<close>

definition eps :: real where
  "eps = 1 / 10 ^ 8"

definition relocate_input :: "'a tensor2_of \<Rightarrow> 'a tensor2_of" where
  "relocate_input x = (if is_cuda x then tensor2_to CPU x else x)"

function hidden_loop :: "nonlin \<Rightarrow> linear list \<Rightarrow> nat \<Rightarrow> tensor2 \<Rightarrow> error + tensor2" where
  "hidden_loop nl layers i out =
     (if i < length layers - 1
      then (case linear_forward (layers ! i) out of
              Inl e \<Rightarrow> Inl e
            | Inr out' \<Rightarrow> hidden_loop nl layers (Suc i) (apply_nonlinearity nl out'))
      else Inr out)"
  by pat_completeness auto
termination
  by (relation "measure (\<lambda>(nl, layers, i, out). length layers - 1 - i)") auto

declare hidden_loop.simps [simp del]

definition forward :: "FCNetwork \<Rightarrow> tensor2 \<Rightarrow> error + tensor2" where
  "forward self x =
     (let out = relocate_input x in
      case tensor_sub out (in_shift self) of
        Inl e \<Rightarrow> Inl e
      | Inr d \<Rightarrow>
     (case tensor_div d (add_scalar (in_scale self) eps) of
        Inl e \<Rightarrow> Inl e
      | Inr out1 \<Rightarrow>
     (case hidden_loop (nonlinearity self) (fc_layers self) 0 out1 of
        Inl e \<Rightarrow> Inl e
      | Inr out2 \<Rightarrow>
     (if fc_layers self = [] then Inl IndexError
      else case linear_forward (last (fc_layers self)) out2 of
        Inl e \<Rightarrow> Inl e
      | Inr out3 \<Rightarrow>
     (case tensor_mul out3 (out_scale self) of
        Inl e \<Rightarrow> Inl e
      | Inr m \<Rightarrow> tensor_add m (out_shift self))))))"

text \<open>
  \<^verbatim>\<open>to(device)\<close> records the device, moves the four boundary vectors one by one and
  lets \<^verbatim>\<open>nn.Module.to\<close> move the parameters of every layer.
\<close>

definition to :: "device \<Rightarrow> FCNetwork \<Rightarrow> FCNetwork" where
  "to d self =
     self\<lparr>device := Some d,
          in_shift := tensor1_to d (in_shift self),
          in_scale := tensor1_to d (in_scale self),
          out_shift := tensor1_to d (out_shift self),
          out_scale := tensor1_to d (out_scale self),
          fc_layers := map (linear_to d) (fc_layers self)\<rparr>"

text \<open>
  \<^verbatim>\<open>register_hooks\<close> walks \<^verbatim>\<open>enumerate(self.fc_layers)\<close> and attaches to layer \<open>i\<close>
  the observer made by \<^verbatim>\<open>hook_fn(f'fc_layer_{i}')\<close>. Attaching appends to the
  layer's observers; torch keeps every observer that was ever attached. An observer
  copies the output of its layer into the cache and the writer and returns nothing,
  so it does not change what \<^verbatim>\<open>forward\<close> returns; the forward pass of the model
  computes the returned value and leaves the observers' writes out.
\<close>

definition digits :: string where
  "digits = ''0123456789''"

function str_nat :: "nat \<Rightarrow> string" where
  "str_nat n = (if n < 10 then [digits ! n] else str_nat (n div 10) @ [digits ! (n mod 10)])"
  by pat_completeness auto
termination
  by (relation "measure id") auto

declare str_nat.simps [simp del]

definition hook_fn :: "string \<Rightarrow> hook" where
  "hook_fn layer_name = Hook layer_name"

definition register_forward_hook :: "hook \<Rightarrow> linear \<Rightarrow> linear" where
  "register_forward_hook h l = l\<lparr>forward_hooks := forward_hooks l @ [h]\<rparr>"

definition register_hooks_layers :: "linear list \<Rightarrow> linear list" where
  "register_hooks_layers layers =
     map (\<lambda>(i, layer). register_forward_hook (hook_fn (''fc_layer_'' @ str_nat i)) layer)
       (enumerate 0 layers)"

definition register_hooks :: "FCNetwork \<Rightarrow> FCNetwork" where
  "register_hooks self = self\<lparr>fc_layers := register_hooks_layers (fc_layers self)\<rparr>"

section \<open>FCNetwork over an arithmetic\<close>

text \<open>
  The entries of a torch tensor are single-precision floats, and what the operations
  return depends on their rounding. To say what \<^verbatim>\<open>forward\<close> computes without fixing
  the entries to the reals, the constructor and \<^verbatim>\<open>forward\<close> are given once more over
  an arithmetic that is a parameter: the conversion of a Python or numpy number to an
  entry (\<^verbatim>\<open>torch.zeros\<close>, \<^verbatim>\<open>torch.ones\<close>, \<^verbatim>\<open>np.float32\<close>, the initial weights), the
  four elementwise operations, the sum of an entry and a Python float
  (\<^verbatim>\<open>self.in_scale + 1e-8\<close>), the entry \<open>w \<bullet> r + b\<close> that \<^verbatim>\<open>nn.Linear\<close> computes from a
  weight row, its bias and an input row, the nonlinearities, and the relation of two
  entries that are the same number (for floats: equal as \<^verbatim>\<open>==\<close> compares them, or
  both NaN). The definitions repeat those of the sections above line by line, with
  the operations of the arithmetic in place of those of the reals.
\<close>

record 'a arithmetic =
  ar_of_real :: "real \<Rightarrow> 'a"
  ar_sub :: "'a \<Rightarrow> 'a \<Rightarrow> 'a"
  ar_div :: "'a \<Rightarrow> 'a \<Rightarrow> 'a"
  ar_mul :: "'a \<Rightarrow> 'a \<Rightarrow> 'a"
  ar_add :: "'a \<Rightarrow> 'a \<Rightarrow> 'a"
  ar_add_scalar :: "'a \<Rightarrow> real \<Rightarrow> 'a"
  ar_affine :: "'a list \<Rightarrow> 'a \<Rightarrow> 'a list \<Rightarrow> 'a"
  ar_activation :: "nonlin \<Rightarrow> 'a \<Rightarrow> 'a"
  ar_same :: "'a \<Rightarrow> 'a \<Rightarrow> bool"

definition add_scalar_in :: "'a arithmetic \<Rightarrow> 'a tensor1_of \<Rightarrow> real \<Rightarrow> 'a tensor1_of" where
  "add_scalar_in ar v c = v\<lparr>data1 := map (\<lambda>a. ar_add_scalar ar a c) (data1 v)\<rparr>"

definition zeros_in :: "'a arithmetic \<Rightarrow> nat \<Rightarrow> 'a tensor1_of" where
  "zeros_in ar n = \<lparr>dev1 = CPU, data1 = replicate n (ar_of_real ar 0)\<rparr>"

definition ones_in :: "'a arithmetic \<Rightarrow> nat \<Rightarrow> 'a tensor1_of" where
  "ones_in ar n = \<lparr>dev1 = CPU, data1 = replicate n (ar_of_real ar 1)\<rparr>"

definition from_numpy_in :: "'a arithmetic \<Rightarrow> real list \<Rightarrow> 'a tensor1_of" where
  "from_numpy_in ar xs = \<lparr>dev1 = CPU, data1 = map (ar_of_real ar) xs\<rparr>"

definition affine_row_in :: "'a arithmetic \<Rightarrow> 'a linear_of \<Rightarrow> 'a list \<Rightarrow> 'a list" where
  "affine_row_in ar l r =
     map2 (\<lambda>w b. ar_affine ar w b r) (rows2 (weight l)) (data1 (bias l))"

definition linear_forward_in ::
  "'a arithmetic \<Rightarrow> 'a linear_of \<Rightarrow> 'a tensor2_of \<Rightarrow> error + 'a tensor2_of" where
  "linear_forward_in ar l x =
     (if dev2 x \<noteq> dev2 (weight l) \<or> dev2 x \<noteq> dev1 (bias l) then Inl DeviceMismatch
      else if ncols x \<noteq> ncols (weight l) then Inl ShapeMismatch
      else Inr \<lparr>dev2 = dev2 x, ncols = length (rows2 (weight l)),
                rows2 = map (affine_row_in ar l) (rows2 x)\<rparr>)"

definition apply_nonlinearity_in :: "'a arithmetic \<Rightarrow> nonlin \<Rightarrow> 'a tensor2_of \<Rightarrow> 'a tensor2_of" where
  "apply_nonlinearity_in ar nl x = x\<lparr>rows2 := map (map (ar_activation ar nl)) (rows2 x)\<rparr>"

definition nn_Linear_in :: "'a arithmetic \<Rightarrow> initializer \<Rightarrow> nat \<Rightarrow> nat \<Rightarrow> nat \<Rightarrow> 'a linear_of" where
  "nn_Linear_in ar ini i n m =
     \<lparr>weight = \<lparr>dev2 = CPU, ncols = n,
                 rows2 = map (\<lambda>r. map (\<lambda>c. ar_of_real ar (init_weight ini i r c)) [0..<n]) [0..<m]\<rparr>,
      bias = \<lparr>dev1 = CPU, data1 = map (\<lambda>r. ar_of_real ar (init_bias ini i r)) [0..<m]\<rparr>,
      forward_hooks = []\<rparr>"

definition set_transformations_in ::
  "'a arithmetic \<Rightarrow> real list option \<Rightarrow> real list option \<Rightarrow> real list option \<Rightarrow>
   real list option \<Rightarrow> 'a FCNetwork_of \<Rightarrow> 'a FCNetwork_of" where
  "set_transformations_in ar ish isc osh osc self =
     self\<lparr>transformations :=
            \<lparr>t_in_shift = ish, t_in_scale = isc, t_out_shift = osh, t_out_scale = osc\<rparr>,
          in_shift := (case ish of Some v \<Rightarrow> from_numpy_in ar v | None \<Rightarrow> zeros_in ar (obs_dim self)),
          in_scale := (case isc of Some v \<Rightarrow> from_numpy_in ar v | None \<Rightarrow> ones_in ar (obs_dim self)),
          out_shift := (case osh of Some v \<Rightarrow> from_numpy_in ar v | None \<Rightarrow> zeros_in ar (act_dim self)),
          out_scale := (case osc of Some v \<Rightarrow> from_numpy_in ar v | None \<Rightarrow> ones_in ar (act_dim self))\<rparr>"

definition make_layers_in :: "'a arithmetic \<Rightarrow> initializer \<Rightarrow> nat list \<Rightarrow> 'a linear_of list" where
  "make_layers_in ar ini sizes =
     map (\<lambda>i. nn_Linear_in ar ini i (sizes ! i) (sizes ! (i + 1))) [0..<length sizes - 1]"

definition FCNetwork_init_in ::
  "'a arithmetic \<Rightarrow> initializer \<Rightarrow> nat \<Rightarrow> nat \<Rightarrow> pyseq \<Rightarrow> string \<Rightarrow>
   real list option \<Rightarrow> real list option \<Rightarrow> real list option \<Rightarrow> real list option \<Rightarrow>
   string \<Rightarrow> error + 'a FCNetwork_of" where
  "FCNetwork_init_in ar ini obs act hidden_sizes nl ish isc osh osc dir =
     (if \<not> is_tuple hidden_sizes then Inl AssertionError
      else
        let sizes = [obs] @ elements hidden_sizes @ [act];
            self = set_transformations_in ar ish isc osh osc
                     \<lparr>obs_dim = obs, act_dim = act, layer_sizes = sizes,
                      transformations = \<lparr>t_in_shift = None, t_in_scale = None,
                                         t_out_shift = None, t_out_scale = None\<rparr>,
                      in_shift = zeros_in ar 0, in_scale = zeros_in ar 0,
                      out_shift = zeros_in ar 0, out_scale = zeros_in ar 0,
                      fc_layers = [], nonlinearity = Tanh, activations = [],
                      log_dir = dir, device = None\<rparr>
        in Inr (self\<lparr>fc_layers := make_layers_in ar ini sizes,
                      nonlinearity := resolve_nonlinearity nl,
                      activations := [],
                      log_dir := dir\<rparr>))"

function hidden_loop_in ::
  "'a arithmetic \<Rightarrow> nonlin \<Rightarrow> 'a linear_of list \<Rightarrow> nat \<Rightarrow> 'a tensor2_of \<Rightarrow>
   error + 'a tensor2_of" where
  "hidden_loop_in ar nl layers i out =
     (if i < length layers - 1
      then (case linear_forward_in ar (layers ! i) out of
              Inl e \<Rightarrow> Inl e
            | Inr out' \<Rightarrow>
                hidden_loop_in ar nl layers (Suc i) (apply_nonlinearity_in ar nl out'))
      else Inr out)"
  by pat_completeness auto
termination
  by (relation "measure (\<lambda>(ar, nl, layers, i, out). length layers - 1 - i)") auto

declare hidden_loop_in.simps [simp del]

definition forward_in :: "'a arithmetic \<Rightarrow> 'a FCNetwork_of \<Rightarrow> 'a tensor2_of \<Rightarrow> error + 'a tensor2_of" where
  "forward_in ar self x =
     (let out = relocate_input x in
      case elementwise (ar_sub ar) out (in_shift self) of
        Inl e \<Rightarrow> Inl e
      | Inr d \<Rightarrow>
     (case elementwise (ar_div ar) d (add_scalar_in ar (in_scale self) eps) of
        Inl e \<Rightarrow> Inl e
      | Inr out1 \<Rightarrow>
     (case hidden_loop_in ar (nonlinearity self) (fc_layers self) 0 out1 of
        Inl e \<Rightarrow> Inl e
      | Inr out2 \<Rightarrow>
     (if fc_layers self = [] then Inl IndexError
      else case linear_forward_in ar (last (fc_layers self)) out2 of
        Inl e \<Rightarrow> Inl e
      | Inr out3 \<Rightarrow>
     (case elementwise (ar_mul ar) out3 (out_scale self) of
        Inl e \<Rightarrow> Inl e
      | Inr m \<Rightarrow> elementwise (ar_add ar) m (out_shift self))))))"

text \<open>
  The arithmetic of the sections above: exact operations on the reals.
\<close>

definition exact_arithmetic :: "real arithmetic" where
  "exact_arithmetic =
     \<lparr>ar_of_real = (\<lambda>a. a), ar_sub = (\<lambda>a b. a - b), ar_div = (\<lambda>a b. a / b),
      ar_mul = (\<lambda>a b. a * b), ar_add = (\<lambda>a b. a + b), ar_add_scalar = (\<lambda>a c. a + c),
      ar_affine = (\<lambda>w b r. dot w r + b), ar_activation = activation,
      ar_same = (\<lambda>a b. a = b)\<rparr>"

section \<open>FCNetworkWithBatchNorm\<close>

text \<open>
  The batch-normalization layer and the dropout layer are torch's. Both depend on
  state that torch owns (the training flag, the running statistics, the random
  generator), so the model threads a library state \<open>'s\<close> through every call and
  takes the two layers' arithmetic as parameters. The batch normalization of a batch
  may raise (a training batch of one row), dropout does not.
\<close>

record 's torch_lib =
  batch_norm :: "'s \<Rightarrow> real list list \<Rightarrow> (error + real list list) \<times> 's"
  dropout_fn :: "real \<Rightarrow> 's \<Rightarrow> real list list \<Rightarrow> real list list \<times> 's"

record batchnorm1d =
  num_features :: nat
  bn_dev :: device

definition batchnorm_forward ::
  "'s torch_lib \<Rightarrow> batchnorm1d \<Rightarrow> 's \<Rightarrow> tensor2 \<Rightarrow> (error + tensor2) \<times> 's" where
  "batchnorm_forward lib bn st x =
     (if dev2 x \<noteq> bn_dev bn then (Inl DeviceMismatch, st)
      else if ncols x \<noteq> num_features bn then (Inl ShapeMismatch, st)
      else case batch_norm lib st (rows2 x) of
             (Inl e, st') \<Rightarrow> (Inl e, st')
           | (Inr rows, st') \<Rightarrow> (Inr (x\<lparr>rows2 := rows\<rparr>), st'))"

definition dropout_forward :: "'s torch_lib \<Rightarrow> real \<Rightarrow> 's \<Rightarrow> tensor2 \<Rightarrow> tensor2 \<times> 's" where
  "dropout_forward lib p st x =
     (case dropout_fn lib p st (rows2 x) of (rows, st') \<Rightarrow> (x\<lparr>rows2 := rows\<rparr>, st'))"

text \<open>
  Arguments that Python binds to \<^verbatim>\<open>*args\<close> and \<^verbatim>\<open>**kwargs\<close> are arbitrary
  Python values.
\<close>

datatype pyval = PyNone | PyInt int | PyFloat real | PyStr string | PyArray "real list"

record FCNetworkWithBatchNorm =
  bn_obs_dim :: nat
  bn_act_dim :: nat
  bn_layer_sizes :: "nat list"
  bn_device :: device
  bn_fc_layers :: "linear list"
  bn_nonlinearity :: nonlin
  input_batchnorm :: batchnorm1d
  dropout :: real
  bn_activations :: "(string \<times> real list list) list"
  bn_log_dir :: string

definition FCNetworkWithBatchNorm_init ::
  "initializer \<Rightarrow> nat \<Rightarrow> nat \<Rightarrow> pyseq \<Rightarrow> string \<Rightarrow> real \<Rightarrow> string \<Rightarrow>
   pyval list \<Rightarrow> (string \<times> pyval) list \<Rightarrow> error + FCNetworkWithBatchNorm" where
  "FCNetworkWithBatchNorm_init ini obs act hidden_sizes nl p dir args kwargs =
     (if \<not> is_tuple hidden_sizes then Inl AssertionError
      else
        let sizes = [obs] @ elements hidden_sizes @ [act] in
        if p < 0 \<or> 1 < p then Inl ValueError
        else Inr \<lparr>bn_obs_dim = obs, bn_act_dim = act, bn_layer_sizes = sizes,
                  bn_device = CPU,
                  bn_fc_layers = make_layers ini sizes,
                  bn_nonlinearity = resolve_nonlinearity nl,
                  input_batchnorm = \<lparr>num_features = obs, bn_dev = CPU\<rparr>,
                  dropout = p,
                  bn_activations = [],
                  bn_log_dir = dir\<rparr>)"

function hidden_loop_bn ::
  "'s torch_lib \<Rightarrow> real \<Rightarrow> nonlin \<Rightarrow> linear list \<Rightarrow> nat \<Rightarrow> 's \<Rightarrow> tensor2 \<Rightarrow>
   (error + tensor2) \<times> 's" where
  "hidden_loop_bn lib p nl layers i st out =
     (if i < length layers - 1
      then (case linear_forward (layers ! i) out of
              Inl e \<Rightarrow> (Inl e, st)
            | Inr out1 \<Rightarrow>
                (case dropout_forward lib p st out1 of
                   (out2, st') \<Rightarrow>
                     hidden_loop_bn lib p nl layers (Suc i) st' (apply_nonlinearity nl out2)))
      else (Inr out, st))"
  by pat_completeness auto
termination
  by (relation "measure (\<lambda>(lib, p, nl, layers, i, st, out). length layers - 1 - i)") auto

declare hidden_loop_bn.simps [simp del]

definition forward_bn ::
  "'s torch_lib \<Rightarrow> FCNetworkWithBatchNorm \<Rightarrow> 's \<Rightarrow> tensor2 \<Rightarrow> (error + tensor2) \<times> 's" where
  "forward_bn lib self st x =
     (let out = tensor2_to (bn_device self) x in
      case batchnorm_forward lib (input_batchnorm self) st out of
        (Inl e, st1) \<Rightarrow> (Inl e, st1)
      | (Inr out1, st1) \<Rightarrow>
     (case hidden_loop_bn lib (dropout self) (bn_nonlinearity self) (bn_fc_layers self) 0 st1 out1 of
        (Inl e, st2) \<Rightarrow> (Inl e, st2)
      | (Inr out2, st2) \<Rightarrow>
     (if bn_fc_layers self = [] then (Inl IndexError, st2)
      else (linear_forward (last (bn_fc_layers self)) out2, st2))))"

definition to_bn :: "device \<Rightarrow> FCNetworkWithBatchNorm \<Rightarrow> FCNetworkWithBatchNorm" where
  "to_bn d self =
     self\<lparr>bn_device := d,
          bn_fc_layers := map (linear_to d) (bn_fc_layers self),
          input_batchnorm := (input_batchnorm self)\<lparr>bn_dev := d\<rparr>\<rparr>"

definition register_hooks_bn :: "FCNetworkWithBatchNorm \<Rightarrow> FCNetworkWithBatchNorm" where
  "register_hooks_bn self = self\<lparr>bn_fc_layers := register_hooks_layers (bn_fc_layers self)\<rparr>"

definition set_transformations_bn ::
  "pyval list \<Rightarrow> (string \<times> pyval) list \<Rightarrow> FCNetworkWithBatchNorm \<Rightarrow> FCNetworkWithBatchNorm" where
  "set_transformations_bn args kwargs self = self"

section \<open>DataLog\<close>

text \<open>
  \<^verbatim>\<open>DataLog\<close> of \<^verbatim>\<open>mjrl/utils/logger.py\<close> keeps a dictionary from keys to series.
  A Python dictionary keeps its keys in insertion order, so it is an association
  list with distinct keys. A method that raises after it has changed the object
  leaves the change behind: every method returns the error, if any, beside the new
  state. The dashboard of \<^verbatim>\<open>wandb\<close> is external and is left out.
\<close>

record 'v DataLog =
  use_wandb :: bool
  log :: "(string \<times> 'v list) list"
  max_len :: int
  global_step :: nat

definition DataLog_init :: "'v DataLog" where
  "DataLog_init = \<lparr>use_wandb = False, log = [], max_len = 0, global_step = 0\<rparr>"

definition append_entry :: "string \<Rightarrow> 'v \<Rightarrow> (string \<times> 'v list) list \<Rightarrow> (string \<times> 'v list) list" where
  "append_entry key v d = AList.map_entry key (\<lambda>xs. xs @ [v]) d"

definition series_length :: "string \<Rightarrow> (string \<times> 'v list) list \<Rightarrow> nat" where
  "series_length key d = (case map_of d key of None \<Rightarrow> 0 | Some xs \<Rightarrow> length xs)"

definition log_kv :: "string \<Rightarrow> 'v \<Rightarrow> 'v DataLog \<Rightarrow> 'v DataLog" where
  "log_kv key v self =
     (let d0 = (if map_of (log self) key = None then log self @ [(key, [])] else log self);
          d1 = append_entry key v d0
      in self\<lparr>log := d1,
              max_len := (if max_len self < int (series_length key d1)
                          then max_len self + 1 else max_len self)\<rparr>)"

text \<open>
  \<^verbatim>\<open>xs[:n]\<close> keeps the first \<open>n\<close> entries when \<open>n\<close> is not negative and drops the
  last \<open>-n\<close> entries when it is. \<^verbatim>\<open>min\<close> and \<^verbatim>\<open>max\<close> of an empty list raise.
\<close>

definition slice_to :: "int \<Rightarrow> 'a list \<Rightarrow> 'a list" where
  "slice_to n xs = (if 0 \<le> n then take (nat n) xs else take (length xs - nat (- n)) xs)"

fun py_min :: "nat list \<Rightarrow> nat option" where
  "py_min [] = None"
| "py_min (x # xs) = Some (fold min xs x)"

fun py_max :: "nat list \<Rightarrow> nat option" where
  "py_max [] = None"
| "py_max (x # xs) = Some (fold max xs x)"

definition series_lengths :: "'v DataLog \<Rightarrow> nat list" where
  "series_lengths self = map (\<lambda>(k, xs). length xs) (log self)"

definition shrink_to :: "int \<Rightarrow> 'v DataLog \<Rightarrow> error option \<times> 'v DataLog" where
  "shrink_to num_entries self =
     (let self' = self\<lparr>log := map (\<lambda>(key, xs). (key, slice_to num_entries xs)) (log self),
                       max_len := num_entries\<rparr>
      in case py_min (series_lengths self') of
           None \<Rightarrow> (Some ValueError, self')
         | Some lo \<Rightarrow>
             (case py_max (series_lengths self') of
                None \<Rightarrow> (Some ValueError, self')
              | Some hi \<Rightarrow> if lo = hi then (None, self') else (Some AssertionError, self')))"

text \<open>
  \<^verbatim>\<open>read_log\<close> reads a table through \<^verbatim>\<open>csv.DictReader\<close>: the field names of the
  header (none for an empty file) and one dictionary per row, in which a field the
  row is too short for is \<^verbatim>\<open>None\<close>. Every field goes through Python's \<^verbatim>\<open>eval\<close>,
  which yields a value or raises. \<^verbatim>\<open>eval\<close> runs in the scope of \<^verbatim>\<open>read_log\<close>, so
  the value of a field may depend on the variables of that scope: the log itself,
  the path, the rows and the field names, the series restored so far, the number of
  the row, the row and the key. The value of the column \<^verbatim>\<open>iteration\<close> is compared
  with the row number by Python's \<^verbatim>\<open>!=\<close>. Both are parameters of the model. An
  expression that changes the variables it sees is outside the model. What
  \<^verbatim>\<open>print\<close> writes is returned as a list of messages.
\<close>

record 'v scope =
  sc_self :: "'v DataLog"
  sc_log_path :: string
  sc_listr :: "(string \<Rightarrow> string option) list"
  sc_keys :: "string list"
  sc_data :: "(string \<times> 'v list) list"
  sc_row :: nat
  sc_row_dict :: "string \<Rightarrow> string option"
  sc_key :: string

record 'v python =
  py_eval :: "'v scope \<Rightarrow> string \<Rightarrow> 'v option"
  py_ne :: "'v \<Rightarrow> nat \<Rightarrow> bool"

record csv_table =
  fieldnames :: "string list option"
  csv_rows :: "(string \<Rightarrow> string option) list"

datatype message = ReadError string "string option" | LogRead string nat

definition endswith :: "string \<Rightarrow> string \<Rightarrow> bool" where
  "endswith s suffix = (length suffix \<le> length s \<and> drop (length s - length suffix) s = suffix)"

definition read_field ::
  "'v python \<Rightarrow> 'v scope \<Rightarrow> (string \<Rightarrow> string option) \<Rightarrow> string \<Rightarrow>
   (string \<times> 'v list) list \<times> message list \<Rightarrow> (string \<times> 'v list) list \<times> message list" where
  "read_field py sc row_dict key acc =
     (case acc of (data, out) \<Rightarrow>
        (case (case row_dict key of
                 None \<Rightarrow> None
               | Some s \<Rightarrow>
                   py_eval py (sc\<lparr>sc_data := data, sc_row_dict := row_dict, sc_key := key\<rparr>) s) of
           None \<Rightarrow> (data, out @ [ReadError key (row_dict key)])
         | Some v \<Rightarrow>
             (case map_of data key of
                None \<Rightarrow> (data, out @ [ReadError key (row_dict key)])
              | Some xs \<Rightarrow> (append_entry key v data, out))))"

fun read_rows ::
  "'v python \<Rightarrow> 'v scope \<Rightarrow> string list \<Rightarrow> nat \<Rightarrow> (string \<Rightarrow> string option) list \<Rightarrow>
   (string \<times> 'v list) list \<Rightarrow> message list \<Rightarrow>
   error option \<times> (string \<times> 'v list) list \<times> message list" where
  "read_rows py sc keys row [] data out = (None, data, out)"
| "read_rows py sc keys row (row_dict # rest) data out =
     (case fold (read_field py (sc\<lparr>sc_row := row\<rparr>) row_dict) keys (data, out) of
        (data', out') \<Rightarrow>
          (case map_of data' ''iteration'' of
             None \<Rightarrow> read_rows py sc keys (Suc row) rest data' out'
           | Some its \<Rightarrow>
               if its = [] then (Some IndexError, data', out')
               else if py_ne py (last its) row then (Some (IterationMismatch row), data', out')
               else read_rows py sc keys (Suc row) rest data' out'))"

definition empty_series :: "string list \<Rightarrow> (string \<times> 'v list) list" where
  "empty_series keys = fold (\<lambda>key data. AList.update key [] data) keys []"

definition read_log ::
  "'v python \<Rightarrow> (string \<Rightarrow> csv_table option) \<Rightarrow> string \<Rightarrow> 'v DataLog \<Rightarrow>
   error option \<times> 'v DataLog \<times> message list" where
  "read_log py fs log_path self =
     (if \<not> endswith log_path ''log.csv'' then (Some AssertionError, self, [])
      else case fs log_path of
        None \<Rightarrow> (Some FileNotFoundError, self, [])
      | Some table \<Rightarrow>
     (case fieldnames table of
        None \<Rightarrow> (Some TypeError, self, [])
      | Some keys \<Rightarrow>
     (case read_rows py
             \<lparr>sc_self = self, sc_log_path = log_path, sc_listr = csv_rows table,
              sc_keys = keys, sc_data = empty_series keys, sc_row = 0,
              sc_row_dict = (\<lambda>key. None), sc_key = []\<rparr>
             keys 0 (csv_rows table) (empty_series keys) [] of
        (Some e, data, out) \<Rightarrow> (Some e, self, out)
      | (None, data, out) \<Rightarrow>
     (case py_max (map (\<lambda>(k, v). length v) data) of
        None \<Rightarrow> (Some ValueError, self\<lparr>log := data\<rparr>, out)
      | Some m \<Rightarrow>
          (None, self\<lparr>log := data, max_len := int m\<rparr>, out @ [LogRead log_path m])))))"

section \<open>The forward pass as the specification words it\<close>

text \<open>
  The specification describes the forward pass of \<^verbatim>\<open>FCNetwork\<close> as a composition:
  normalize the input, run every hidden layer followed by the nonlinearity, run the
  final layer alone, denormalize. The definitions below follow those words; the
  theorems compare them with the loops of the source.
\<close>

definition normalize :: "FCNetwork \<Rightarrow> tensor2 \<Rightarrow> error + tensor2" where
  "normalize self x =
     and_then (tensor_sub x (in_shift self))
       (\<lambda>d. tensor_div d (add_scalar (in_scale self) eps))"

definition hidden_layer :: "nonlin \<Rightarrow> linear \<Rightarrow> tensor2 \<Rightarrow> error + tensor2" where
  "hidden_layer nl l x = and_then (linear_forward l x) (\<lambda>y. Inr (apply_nonlinearity nl y))"

definition hidden_stack :: "nonlin \<Rightarrow> linear list \<Rightarrow> error + tensor2 \<Rightarrow> error + tensor2" where
  "hidden_stack nl ls r = fold (\<lambda>l r. and_then r (hidden_layer nl l)) ls r"

definition denormalize :: "FCNetwork \<Rightarrow> tensor2 \<Rightarrow> error + tensor2" where
  "denormalize self y =
     and_then (tensor_mul y (out_scale self)) (\<lambda>m. tensor_add m (out_shift self))"

definition normalized_mlp :: "FCNetwork \<Rightarrow> tensor2 \<Rightarrow> error + tensor2" where
  "normalized_mlp self x =
     and_then (normalize self x) (\<lambda>a.
     and_then (hidden_stack (nonlinearity self) (butlast (fc_layers self)) (Inr a)) (\<lambda>b.
     and_then (linear_forward (last (fc_layers self)) b) (denormalize self)))"

text \<open>
  The same composition on the entries of one observation, where nothing can raise,
  and the shapes under which the tensor operations agree with it: every owned tensor
  on the CPU, boundary vectors as long as the observation and the action, layers
  whose widths chain from \<^verbatim>\<open>obs_dim\<close> to \<^verbatim>\<open>act_dim\<close>, and a batch whose rows have
  the width \<^verbatim>\<open>obs_dim\<close>.
\<close>

definition normalize_row :: "FCNetwork \<Rightarrow> real list \<Rightarrow> real list" where
  "normalize_row self r =
     map2 (\<lambda>d s. d / s) (map2 (\<lambda>a b. a - b) r (data1 (in_shift self)))
       (map (\<lambda>s. s + eps) (data1 (in_scale self)))"

definition hidden_row :: "nonlin \<Rightarrow> linear \<Rightarrow> real list \<Rightarrow> real list" where
  "hidden_row nl l r = map (activation nl) (affine_row l r)"

definition denormalize_row :: "FCNetwork \<Rightarrow> real list \<Rightarrow> real list" where
  "denormalize_row self r =
     map2 (\<lambda>m b. m + b) (map2 (\<lambda>a s. a * s) r (data1 (out_scale self))) (data1 (out_shift self))"

definition forward_row :: "FCNetwork \<Rightarrow> real list \<Rightarrow> real list" where
  "forward_row self r =
     denormalize_row self
       (affine_row (last (fc_layers self))
          (fold (hidden_row (nonlinearity self)) (butlast (fc_layers self))
             (normalize_row self r)))"

fun layers_fit :: "nat \<Rightarrow> 'a linear_of list \<Rightarrow> bool" where
  "layers_fit w [] = True"
| "layers_fit w (l # ls) =
     (dev2 (weight l) = CPU \<and> dev1 (bias l) = CPU \<and> ncols (weight l) = w \<and>
      length (data1 (bias l)) = length (rows2 (weight l)) \<and>
      list_all (\<lambda>row. length row = w) (rows2 (weight l)) \<and>
      layers_fit (length (rows2 (weight l))) ls)"

definition vector_fits :: "nat \<Rightarrow> 'a tensor1_of \<Rightarrow> bool" where
  "vector_fits n v = (dev1 v = CPU \<and> length (data1 v) = n)"

definition well_formed :: "'a FCNetwork_of \<Rightarrow> bool" where
  "well_formed self =
     (fc_layers self \<noteq> [] \<and>
      vector_fits (obs_dim self) (in_shift self) \<and> vector_fits (obs_dim self) (in_scale self) \<and>
      vector_fits (act_dim self) (out_shift self) \<and> vector_fits (act_dim self) (out_scale self) \<and>
      layers_fit (obs_dim self) (fc_layers self) \<and>
      length (rows2 (weight (last (fc_layers self)))) = act_dim self)"

definition batch_fits :: "nat \<Rightarrow> 'a tensor2_of \<Rightarrow> bool" where
  "batch_fits w x = (ncols x = w \<and> list_all (\<lambda>r. length r = w) (rows2 x))"

definition given_fits :: "nat \<Rightarrow> real list option \<Rightarrow> bool" where
  "given_fits n given = (case given of None \<Rightarrow> True | Some v \<Rightarrow> length v = n)"

text \<open>
  The forward pass of \<^verbatim>\<open>FCNetworkWithBatchNorm\<close> in the specification's words:
  relocate the input to the network's device, normalize the batch, run every hidden
  layer as affine transform, then dropout, then nonlinearity, and run the final layer
  alone.
\<close>

definition hidden_layer_bn ::
  "'s torch_lib \<Rightarrow> real \<Rightarrow> nonlin \<Rightarrow> linear \<Rightarrow> 's \<Rightarrow> tensor2 \<Rightarrow> (error + tensor2) \<times> 's" where
  "hidden_layer_bn lib p nl l st x =
     (case linear_forward l x of
        Inl e \<Rightarrow> (Inl e, st)
      | Inr y \<Rightarrow>
          (case dropout_forward lib p st y of
             (z, st') \<Rightarrow> (Inr (apply_nonlinearity nl z), st')))"

definition hidden_stack_bn ::
  "'s torch_lib \<Rightarrow> real \<Rightarrow> nonlin \<Rightarrow> linear list \<Rightarrow> (error + tensor2) \<times> 's \<Rightarrow>
   (error + tensor2) \<times> 's" where
  "hidden_stack_bn lib p nl ls r =
     fold (\<lambda>l (r, st). case r of Inl e \<Rightarrow> (Inl e, st) | Inr x \<Rightarrow> hidden_layer_bn lib p nl l st x)
       ls r"

definition batchnorm_mlp ::
  "'s torch_lib \<Rightarrow> FCNetworkWithBatchNorm \<Rightarrow> 's \<Rightarrow> tensor2 \<Rightarrow> (error + tensor2) \<times> 's" where
  "batchnorm_mlp lib self st x =
     (case batchnorm_forward lib (input_batchnorm self) st (tensor2_to (bn_device self) x) of
        (Inl e, st1) \<Rightarrow> (Inl e, st1)
      | (Inr a, st1) \<Rightarrow>
          (case hidden_stack_bn lib (dropout self) (bn_nonlinearity self)
                  (butlast (bn_fc_layers self)) (Inr a, st1) of
             (Inl e, st2) \<Rightarrow> (Inl e, st2)
           | (Inr b, st2) \<Rightarrow> (linear_forward (last (bn_fc_layers self)) b, st2)))"

text \<open>
  A plain multi-layer perceptron with the weights and the nonlinearity of a network:
  every layer but the last followed by the nonlinearity, then the last layer, and
  nothing at either boundary; first on a batch, where a step may raise, then on the
  entries of one observation. Two outcomes are the same output when both are the
  same error, or both are batches on the same device and of the same shape whose
  entries are, one by one, the same number.
\<close>

definition hidden_layer_in ::
  "'a arithmetic \<Rightarrow> nonlin \<Rightarrow> 'a linear_of \<Rightarrow> 'a tensor2_of \<Rightarrow> error + 'a tensor2_of" where
  "hidden_layer_in ar nl l x =
     and_then (linear_forward_in ar l x) (\<lambda>y. Inr (apply_nonlinearity_in ar nl y))"

definition hidden_stack_in ::
  "'a arithmetic \<Rightarrow> nonlin \<Rightarrow> 'a linear_of list \<Rightarrow> error + 'a tensor2_of \<Rightarrow>
   error + 'a tensor2_of" where
  "hidden_stack_in ar nl ls r = fold (\<lambda>l r. and_then r (hidden_layer_in ar nl l)) ls r"

definition plain_mlp ::
  "'a arithmetic \<Rightarrow> 'a FCNetwork_of \<Rightarrow> 'a tensor2_of \<Rightarrow> error + 'a tensor2_of" where
  "plain_mlp ar self x =
     (if fc_layers self = [] then Inl IndexError
      else and_then (hidden_stack_in ar (nonlinearity self) (butlast (fc_layers self)) (Inr x))
             (linear_forward_in ar (last (fc_layers self))))"




text \<open>
  What makes the default vectors an identity transform: subtracting the entry 0,
  dividing by the entry 1 and multiplying by the entry 1 return the other operand,
  adding the entry 0 returns the same number, and the entry 1 plus the Python float
  \<^verbatim>\<open>1e-8\<close> is the entry 1. Single-precision floats have these properties (1e-8 is
  less than half the distance from 1 to the next float; \<open>-0 + 0\<close> is \<open>+0\<close>, the same
  number as \<open>-0\<close>). Among the reals 1 plus 1e-8 is not 1.
\<close>

definition identities_hold :: "'a arithmetic \<Rightarrow> bool" where
  "identities_hold ar =
     ((\<forall>a. ar_sub ar a (ar_of_real ar 0) = a) \<and>
      ar_add_scalar ar (ar_of_real ar 1) eps = ar_of_real ar 1 \<and>
      (\<forall>a. ar_div ar a (ar_of_real ar 1) = a) \<and>
      (\<forall>a. ar_mul ar a (ar_of_real ar 1) = a) \<and>
      (\<forall>a. ar_same ar (ar_add ar a (ar_of_real ar 0)) a))"

section \<open>Observations on objects\<close>

text \<open>
  The devices of all tensors a network owns: the four boundary vectors and the weight
  and bias of every layer. The nonlinearity a constructor call ends with, if it
  succeeds. Whether a list of series lengths holds two different lengths.
\<close>

definition owned_devices :: "FCNetwork \<Rightarrow> device list" where
  "owned_devices self =
     [dev1 (in_shift self), dev1 (in_scale self), dev1 (out_shift self), dev1 (out_scale self)]
     @ concat (map (\<lambda>l. [dev2 (weight l), dev1 (bias l)]) (fc_layers self))"

definition owned_devices_bn :: "FCNetworkWithBatchNorm \<Rightarrow> device list" where
  "owned_devices_bn self =
     bn_dev (input_batchnorm self)
     # concat (map (\<lambda>l. [dev2 (weight l), dev1 (bias l)]) (bn_fc_layers self))"

definition constructed_nonlinearity :: "error + FCNetwork \<Rightarrow> nonlin option" where
  "constructed_nonlinearity r = (case r of Inl e \<Rightarrow> None | Inr net \<Rightarrow> Some (nonlinearity net))"

definition constructed_nonlinearity_bn :: "error + FCNetworkWithBatchNorm \<Rightarrow> nonlin option" where
  "constructed_nonlinearity_bn r =
     (case r of Inl e \<Rightarrow> None | Inr net \<Rightarrow> Some (bn_nonlinearity net))"

definition diverge :: "nat list \<Rightarrow> bool" where
  "diverge ns = (\<exists>a \<in> set ns. \<exists>b \<in> set ns. a \<noteq> b)"

text \<open>
  What \<^verbatim>\<open>read_log\<close> is expected to restore from a table whose fields are scalars: a
  field is free of the scope when \<^verbatim>\<open>eval\<close> gives the same outcome for it in every
  scope, as it does for a literal and for a text that is no expression at all. Such
  a field is parsed when it is present and \<^verbatim>\<open>eval\<close> yields a value for it. A row
  contributes its parsed value to the series of a key once for every time the key
  occurs in the header, and nothing when the field is malformed; every malformed
  field is reported. The iteration field of a row agrees with the row's position
  when it is parsed to a value that \<^verbatim>\<open>!=\<close> does not tell from the row number. The
  comparison is coherent when a value that equals one row number differs from every
  other, as every Python number does.
\<close>

definition no_scope :: "'v scope" where
  "no_scope =
     \<lparr>sc_self = DataLog_init, sc_log_path = [], sc_listr = [], sc_keys = [], sc_data = [],
      sc_row = 0, sc_row_dict = (\<lambda>key. None), sc_key = []\<rparr>"

definition scope_free :: "'v python \<Rightarrow> string \<Rightarrow> bool" where
  "scope_free py s = (\<forall>sc. py_eval py sc s = py_eval py no_scope s)"

definition scalar_row :: "'v python \<Rightarrow> string list \<Rightarrow> (string \<Rightarrow> string option) \<Rightarrow> bool" where
  "scalar_row py keys row_dict =
     (\<forall>key \<in> set keys. case row_dict key of None \<Rightarrow> True | Some s \<Rightarrow> scope_free py s)"

definition scalar_table ::
  "'v python \<Rightarrow> string list \<Rightarrow> (string \<Rightarrow> string option) list \<Rightarrow> bool" where
  "scalar_table py keys rows = list_all (scalar_row py keys) rows"

definition parsed :: "'v python \<Rightarrow> (string \<Rightarrow> string option) \<Rightarrow> string \<Rightarrow> 'v option" where
  "parsed py row_dict key =
     (case row_dict key of None \<Rightarrow> None | Some s \<Rightarrow> py_eval py no_scope s)"

definition restored_row :: "'v python \<Rightarrow> string list \<Rightarrow> (string \<Rightarrow> string option) \<Rightarrow> string \<Rightarrow> 'v list" where
  "restored_row py keys row_dict key =
     (case parsed py row_dict key of None \<Rightarrow> [] | Some v \<Rightarrow> replicate (count_list keys key) v)"

definition restored_series ::
  "'v python \<Rightarrow> string list \<Rightarrow> (string \<Rightarrow> string option) list \<Rightarrow> string \<Rightarrow> 'v list" where
  "restored_series py keys rows key = concat (map (\<lambda>row_dict. restored_row py keys row_dict key) rows)"

definition row_diagnostics :: "'v python \<Rightarrow> string list \<Rightarrow> (string \<Rightarrow> string option) \<Rightarrow> message list" where
  "row_diagnostics py keys row_dict =
     map (\<lambda>key. ReadError key (row_dict key)) (filter (\<lambda>key. parsed py row_dict key = None) keys)"

definition diagnostics ::
  "'v python \<Rightarrow> string list \<Rightarrow> (string \<Rightarrow> string option) list \<Rightarrow> message list" where
  "diagnostics py keys rows = concat (map (row_diagnostics py keys) rows)"

definition agrees_at :: "'v python \<Rightarrow> nat \<Rightarrow> (string \<Rightarrow> string option) \<Rightarrow> bool" where
  "agrees_at py row row_dict =
     (case parsed py row_dict ''iteration'' of None \<Rightarrow> False | Some v \<Rightarrow> \<not> py_ne py v row)"

definition iteration_agrees :: "'v python \<Rightarrow> nat \<Rightarrow> (string \<Rightarrow> string option) list \<Rightarrow> bool" where
  "iteration_agrees py i rows =
     list_all (\<lambda>(row, row_dict). agrees_at py row row_dict) (enumerate i rows)"

definition coherent :: "'v python \<Rightarrow> bool" where
  "coherent py = (\<forall>v i j. \<not> py_ne py v i \<longrightarrow> i \<noteq> j \<longrightarrow> py_ne py v j)"

section \<open>Example objects\<close>

text \<open>
  A network with one hidden layer of two units on two observations and one action,
  as \<^verbatim>\<open>FCNetwork(2, 1, hidden_sizes=(2,), nonlinearity='relu', in_shift=[1, 0],
  in_scale=[1, 3])\<close> builds it from the initializer \<open>demo_init\<close>, and a batch of two
  observations on the first CUDA device.
\<close>

definition demo_init :: initializer where
  "demo_init = \<lparr>init_weight = (\<lambda>i r c. real (i + r + c + 1)), init_bias = (\<lambda>i r. real r)\<rparr>"

definition demo_net :: FCNetwork where
  "demo_net =
     \<lparr>obs_dim = 2, act_dim = 1, layer_sizes = [2, 2, 1],
      transformations = \<lparr>t_in_shift = Some [1, 0], t_in_scale = Some [1, 3],
                         t_out_shift = None, t_out_scale = None\<rparr>,
      in_shift = \<lparr>dev1 = CPU, data1 = [1, 0]\<rparr>,
      in_scale = \<lparr>dev1 = CPU, data1 = [1, 3]\<rparr>,
      out_shift = \<lparr>dev1 = CPU, data1 = [0]\<rparr>,
      out_scale = \<lparr>dev1 = CPU, data1 = [1]\<rparr>,
      fc_layers =
        [\<lparr>weight = \<lparr>dev2 = CPU, ncols = 2, rows2 = [[1, 2], [2, 3]]\<rparr>,
          bias = \<lparr>dev1 = CPU, data1 = [0, 1]\<rparr>, forward_hooks = []\<rparr>,
         \<lparr>weight = \<lparr>dev2 = CPU, ncols = 2, rows2 = [[2, 3]]\<rparr>,
          bias = \<lparr>dev1 = CPU, data1 = [0]\<rparr>, forward_hooks = []\<rparr>],
      nonlinearity = Relu, activations = [], log_dir = ''runs/activations'',
      device = None\<rparr>"

definition demo_batch :: tensor2 where
  "demo_batch = \<lparr>dev2 = CUDA 0, ncols = 2, rows2 = [[2, 3], [0, - 1]]\<rparr>"

text \<open>
  The same layers as a \<^verbatim>\<open>FCNetworkWithBatchNorm\<close> with dropout probability one half,
  and a stand-in for torch in training mode whose state counts the calls: its batch
  normalization halves every entry, its dropout zeroes the first entry of every row
  and rescales the others by \<open>1 / (1 - p)\<close>.
\<close>

definition demo_bn_net :: FCNetworkWithBatchNorm where
  "demo_bn_net =
     \<lparr>bn_obs_dim = 2, bn_act_dim = 1, bn_layer_sizes = [2, 2, 1], bn_device = CPU,
      bn_fc_layers =
        [\<lparr>weight = \<lparr>dev2 = CPU, ncols = 2, rows2 = [[1, 2], [2, 3]]\<rparr>,
          bias = \<lparr>dev1 = CPU, data1 = [0, 1]\<rparr>, forward_hooks = []\<rparr>,
         \<lparr>weight = \<lparr>dev2 = CPU, ncols = 2, rows2 = [[2, 3]]\<rparr>,
          bias = \<lparr>dev1 = CPU, data1 = [0]\<rparr>, forward_hooks = []\<rparr>],
      bn_nonlinearity = Relu,
      input_batchnorm = \<lparr>num_features = 2, bn_dev = CPU\<rparr>,
      dropout = 1 / 2, bn_activations = [],
      bn_log_dir = ''runs/activations_with_batchnorm''\<rparr>"

definition demo_lib :: "nat torch_lib" where
  "demo_lib =
     \<lparr>batch_norm = (\<lambda>st rows. (Inr (map (map (\<lambda>a. a / 2)) rows), Suc st)),
      dropout_fn = (\<lambda>p st rows.
        (map (\<lambda>r. case r of [] \<Rightarrow> [] | a # as \<Rightarrow> 0 # map (\<lambda>b. b / (1 - p)) as) rows, Suc st))\<rparr>"

text \<open>Two logs whose series have different lengths.\<close>

definition demo_log :: "int DataLog" where
  "demo_log =
     \<lparr>use_wandb = False,
      log = [(''loss'', [1, 2, 3]), (''reward'', [1, 2, 3, 4, 5])],
      max_len = 5, global_step = 0\<rparr>"

definition short_log :: "int DataLog" where
  "short_log =
     \<lparr>use_wandb = False,
      log = [(''loss'', [7]), (''reward'', [1, 2, 3])],
      max_len = 3, global_step = 0\<rparr>"

text \<open>
  A stand-in for \<^verbatim>\<open>eval\<close>: the decimal literals of natural numbers as Python reads
  them (digits only, no leading zero before another digit), the name \<^verbatim>\<open>row\<close>, which
  in the scope of \<^verbatim>\<open>read_log\<close> is the number of the row being read, and every other
  text malformed. Four tables as \<^verbatim>\<open>csv.DictReader\<close> returns them, and a file system
  that holds them. In the first table one field is not a number and the last row is
  too short; in the second the iteration column jumps from 0 to 5; in the third the
  iteration field of the second row is not a number, in the fourth that of the first
  row.
\<close>

definition digit_value :: "char \<Rightarrow> nat option" where
  "digit_value c =
     map_of [(CHR ''0'', 0), (CHR ''1'', 1), (CHR ''2'', 2), (CHR ''3'', 3), (CHR ''4'', 4),
             (CHR ''5'', 5), (CHR ''6'', 6), (CHR ''7'', 7), (CHR ''8'', 8), (CHR ''9'', 9)] c"

fun eval_digits :: "string \<Rightarrow> nat \<Rightarrow> nat option" where
  "eval_digits [] acc = Some acc"
| "eval_digits (c # cs) acc =
     (case digit_value c of None \<Rightarrow> None | Some d \<Rightarrow> eval_digits cs (10 * acc + d))"

definition eval_literal :: "string \<Rightarrow> nat option" where
  "eval_literal s =
     (if s = [] then None
      else if hd s = CHR ''0'' \<and> \<not> list_all (\<lambda>c. c = CHR ''0'') s then None
      else eval_digits s 0)"

definition demo_python :: "nat python" where
  "demo_python =
     \<lparr>py_eval = (\<lambda>sc s. if s = ''row'' then Some (sc_row sc) else eval_literal s),
      py_ne = (\<lambda>v row. v \<noteq> row)\<rparr>"

definition good_table :: csv_table where
  "good_table =
     \<lparr>fieldnames = Some [''iteration'', ''reward''],
      csv_rows = [map_of [(''iteration'', ''0''), (''reward'', ''5'')],
                  map_of [(''iteration'', ''1''), (''reward'', ''n/a'')],
                  map_of [(''iteration'', ''2'')]]\<rparr>"

definition bad_table :: csv_table where
  "bad_table =
     \<lparr>fieldnames = Some [''iteration'', ''reward''],
      csv_rows = [map_of [(''iteration'', ''0''), (''reward'', ''5'')],
                  map_of [(''iteration'', ''5''), (''reward'', ''6'')],
                  map_of [(''iteration'', ''2''), (''reward'', ''7'')]]\<rparr>"

definition torn_table :: csv_table where
  "torn_table =
     \<lparr>fieldnames = Some [''iteration'', ''reward''],
      csv_rows = [map_of [(''iteration'', ''0''), (''reward'', ''5'')],
                  map_of [(''iteration'', ''x''), (''reward'', ''6'')],
                  map_of [(''iteration'', ''2''), (''reward'', ''7'')]]\<rparr>"

definition headless_table :: csv_table where
  "headless_table =
     \<lparr>fieldnames = Some [''iteration'', ''reward''],
      csv_rows = [map_of [(''iteration'', ''01''), (''reward'', ''n/a'')],
                  map_of [(''iteration'', ''1''), (''reward'', ''6'')]]\<rparr>"

definition scoped_table :: csv_table where
  "scoped_table =
     \<lparr>fieldnames = Some [''iteration'', ''reward''],
      csv_rows = [map_of [(''iteration'', ''row''), (''reward'', ''5'')],
                  map_of [(''iteration'', ''row''), (''reward'', ''row'')]]\<rparr>"

definition demo_fs :: "string \<Rightarrow> csv_table option" where
  "demo_fs =
     map_of [(''good/log.csv'', good_table), (''bad/log.csv'', bad_table),
             (''torn/log.csv'', torn_table), (''headless/log.csv'', headless_table),
             (''scoped/log.csv'', scoped_table)]"






section \<open>The forward pass of FCNetwork\<close>

lemma demo_net_constructed:
  "FCNetwork_init demo_init 2 1 (PyTuple [2]) ''relu'' (Some [1, 0]) (Some [1, 3]) None None
     ''runs/activations'' = Inr demo_net"
  by (simp add: FCNetwork_init_def demo_init_def set_transformations_def make_layers_def
      nn_Linear_def zeros_def ones_def resolve_nonlinearity_def from_numpy_def demo_net_def
      upt_rec)

lemmas forward_eval =
  forward_def relocate_input_def is_cuda_def tensor2_to_def tensor1_to_def
  tensor_sub_def tensor_div_def tensor_mul_def tensor_add_def elementwise_def
  broadcast_width_def broadcast_row_def add_scalar_def eps_def hidden_loop.simps
  linear_forward_def affine_row_def dot_def apply_nonlinearity_def

lemma hidden_stack_Inl: "hidden_stack nl ls (Inl e) = Inl e"
  by (induction ls) (simp_all add: hidden_stack_def and_then_def)

lemma hidden_stack_Cons:
  "hidden_stack nl (l # ls) (Inr x) = hidden_stack nl ls (hidden_layer nl l x)"
  by (simp add: hidden_stack_def and_then_def)

lemma hidden_loop_stack:
  "hidden_loop nl ls i out = hidden_stack nl (drop i (butlast ls)) (Inr out)"
proof (induction nl ls i out rule: hidden_loop.induct)
  case (1 nl layers i out)
  show ?case
  proof (cases "i < length layers - 1")
    case False
    then show ?thesis
      by (simp add: hidden_loop.simps [of nl layers i out] hidden_stack_def)
  next
    case True
    then have d: "drop i (butlast layers) = layers ! i # drop (Suc i) (butlast layers)"
      by (simp add: Cons_nth_drop_Suc [symmetric] nth_butlast)
    show ?thesis
    proof (cases "linear_forward (layers ! i) out")
      case (Inl e)
      with True show ?thesis
        by (simp add: hidden_loop.simps [of nl layers i out] d hidden_stack_Cons
            hidden_layer_def and_then_def hidden_stack_Inl)
    next
      case (Inr y)
      with True "1.IH" [OF True Inr] show ?thesis
        by (simp add: hidden_loop.simps [of nl layers i out] d hidden_stack_Cons
            hidden_layer_def and_then_def)
    qed
  qed
qed

lemma elementwise_fits:
  assumes "batch_fits w x" and "dev2 x = CPU" and "vector_fits w v"
  shows "elementwise f x v =
           Inr \<lparr>dev2 = CPU, ncols = w, rows2 = map (\<lambda>r. map2 f r (data1 v)) (rows2 x)\<rparr>"
  using assms
  by (auto simp add: elementwise_def batch_fits_def vector_fits_def broadcast_width_def
      broadcast_row_def list_all_iff)

lemma hidden_stack_value:
  assumes "layers_fit w ls" and "dev2 x = CPU" and "ncols x = w"
  shows "hidden_stack nl ls (Inr x) =
           Inr \<lparr>dev2 = CPU, ncols = (if ls = [] then w else length (rows2 (weight (last ls)))),
                rows2 = map (fold (hidden_row nl) ls) (rows2 x)\<rparr>"
  using assms
proof (induction ls arbitrary: w x)
  case Nil
  then show ?case
    by (simp add: hidden_stack_def)
next
  case (Cons l ls)
  let ?y = "\<lparr>dev2 = CPU, ncols = length (rows2 (weight l)),
             rows2 = map (hidden_row nl l) (rows2 x)\<rparr>"
  from Cons.prems have step: "hidden_layer nl l x = Inr ?y"
    by (simp add: hidden_layer_def linear_forward_def and_then_def apply_nonlinearity_def
        hidden_row_def)
  from Cons.prems have "layers_fit (length (rows2 (weight l))) ls"
    by simp
  from Cons.IH [OF this, of ?y] show ?case
    by (simp add: hidden_stack_Cons step comp_def)
qed

lemma layers_fit_butlast:
  assumes "layers_fit w ls" and "ls \<noteq> []"
  shows "layers_fit w (butlast ls)"
    and "ncols (weight (last ls)) =
           (if butlast ls = [] then w else length (rows2 (weight (last (butlast ls)))))"
    and "dev2 (weight (last ls)) = CPU" and "dev1 (bias (last ls)) = CPU"
    and "length (data1 (bias (last ls))) = length (rows2 (weight (last ls)))"
  using assms
  by (induction ls arbitrary: w) (auto split: if_splits)

lemma length_affine_row:
  "length (data1 (bias l)) = length (rows2 (weight l)) \<Longrightarrow>
   length (affine_row l r) = length (rows2 (weight l))"
  by (simp add: affine_row_def)

lemma forward_value:
  assumes "well_formed self" and "batch_fits (obs_dim self) x"
  shows "forward self x =
           Inr \<lparr>dev2 = CPU, ncols = act_dim self, rows2 = map (forward_row self) (rows2 x)\<rparr>"
proof -
  let ?x = "relocate_input x"
  let ?ls = "fc_layers self"
  from assms(1) have ne: "?ls \<noteq> []" and fit: "layers_fit (obs_dim self) ?ls"
    and ish: "vector_fits (obs_dim self) (in_shift self)"
    and isc: "vector_fits (obs_dim self) (in_scale self)"
    and osh: "vector_fits (act_dim self) (out_shift self)"
    and osc: "vector_fits (act_dim self) (out_scale self)"
    and act: "length (rows2 (weight (last ?ls))) = act_dim self"
    by (simp_all add: well_formed_def)
  have x: "batch_fits (obs_dim self) ?x" "dev2 ?x = CPU" "rows2 ?x = rows2 x"
    using assms(2)
    by (auto simp add: relocate_input_def is_cuda_def tensor2_to_def batch_fits_def
        split: device.splits)
  let ?d = "\<lparr>dev2 = CPU, ncols = obs_dim self,
             rows2 = map (\<lambda>r. map2 (\<lambda>a b. a - b) r (data1 (in_shift self))) (rows2 x)\<rparr>"
  have s1: "tensor_sub ?x (in_shift self) = Inr ?d"
    using elementwise_fits [OF x(1) x(2) ish] by (simp add: tensor_sub_def x(3))
  have d: "batch_fits (obs_dim self) ?d"
    using x(1) ish by (auto simp add: batch_fits_def vector_fits_def list_all_iff x(3))
  have isc': "vector_fits (obs_dim self) (add_scalar (in_scale self) eps)"
    using isc by (simp add: vector_fits_def add_scalar_def)
  let ?a = "\<lparr>dev2 = CPU, ncols = obs_dim self, rows2 = map (normalize_row self) (rows2 x)\<rparr>"
  have s2: "tensor_div ?d (add_scalar (in_scale self) eps) = Inr ?a"
    using elementwise_fits [OF d _ isc']
    by (simp add: tensor_div_def normalize_row_def add_scalar_def comp_def)
  note bl = layers_fit_butlast [OF fit ne]
  let ?w = "if butlast ?ls = [] then obs_dim self
            else length (rows2 (weight (last (butlast ?ls))))"
  let ?b = "\<lparr>dev2 = CPU, ncols = ?w,
             rows2 = map (fold (hidden_row (nonlinearity self)) (butlast ?ls))
                       (map (normalize_row self) (rows2 x))\<rparr>"
  have s3: "hidden_loop (nonlinearity self) ?ls 0 ?a = Inr ?b"
    using hidden_stack_value [OF bl(1), of ?a "nonlinearity self"]
    by (simp add: hidden_loop_stack)
  let ?c = "\<lparr>dev2 = CPU, ncols = act_dim self,
             rows2 = map (affine_row (last ?ls)) (rows2 ?b)\<rparr>"
  have s4: "linear_forward (last ?ls) ?b = Inr ?c"
    using bl(2-4) act by (simp add: linear_forward_def)
  have c: "batch_fits (act_dim self) ?c"
    using length_affine_row [OF bl(5)] act by (simp add: batch_fits_def list_all_iff)
  let ?m = "\<lparr>dev2 = CPU, ncols = act_dim self,
             rows2 = map (\<lambda>r. map2 (\<lambda>a s. a * s) r (data1 (out_scale self))) (rows2 ?c)\<rparr>"
  have s5: "tensor_mul ?c (out_scale self) = Inr ?m"
    using elementwise_fits [OF c _ osc] by (simp add: tensor_mul_def)
  have m: "batch_fits (act_dim self) ?m"
    using c osc by (auto simp add: batch_fits_def vector_fits_def list_all_iff)
  have s6: "tensor_add ?m (out_shift self) =
      Inr \<lparr>dev2 = CPU, ncols = act_dim self, rows2 = map (forward_row self) (rows2 x)\<rparr>"
    using elementwise_fits [OF m _ osh]
    by (simp add: tensor_add_def forward_row_def denormalize_row_def comp_def)
  show ?thesis
    by (simp only: forward_def Let_def s1 s2 s3 ne s4 s5 s6 sum.case if_False)
qed


lemma layers_fit_make:
  assumes "n < length sizes"
  shows "layers_fit (sizes ! k)
           (map (\<lambda>i. nn_Linear ini i (sizes ! i) (sizes ! (i + 1))) [k..<n])"
proof (induction "n - k" arbitrary: k)
  case 0
  then show ?case
    by simp
next
  case (Suc m)
  then have "k < n" and "m = n - Suc k"
    by simp_all
  with Suc.hyps(1) [of "Suc k"] show ?case
    by (simp add: upt_conv_Cons nn_Linear_def list_all_iff)
qed

lemma make_layers_fit:
  "layers_fit obs (make_layers ini ([obs] @ hs @ [act]))"
  using layers_fit_make [of "length hs + 1" "[obs] @ hs @ [act]" 0 ini]
  by (simp add: make_layers_def)

lemma make_layers_last:
  "make_layers ini ([obs] @ hs @ [act]) \<noteq> [] \<and>
   length (rows2 (weight (last (make_layers ini ([obs] @ hs @ [act]))))) = act"
  by (simp add: make_layers_def last_map nn_Linear_def nth_append)

lemma constructed_well_formed:
  assumes "FCNetwork_init ini obs act (PyTuple hs) nl ish isc osh osc dir = Inr net"
    and "given_fits obs ish" and "given_fits obs isc"
    and "given_fits act osh" and "given_fits act osc"
  shows "well_formed net \<and> obs_dim net = obs \<and> act_dim net = act"
proof -
  from assms(1) have net: "net =
      (set_transformations ish isc osh osc
         \<lparr>obs_dim = obs, act_dim = act, layer_sizes = [obs] @ hs @ [act],
          transformations = \<lparr>t_in_shift = None, t_in_scale = None,
                             t_out_shift = None, t_out_scale = None\<rparr>,
          in_shift = zeros 0, in_scale = zeros 0,
          out_shift = zeros 0, out_scale = zeros 0,
          fc_layers = [], nonlinearity = Tanh, activations = [],
          log_dir = dir, device = None\<rparr>)
      \<lparr>fc_layers := make_layers ini ([obs] @ hs @ [act]),
        nonlinearity := resolve_nonlinearity nl, activations := [], log_dir := dir\<rparr>"
    by (simp add: FCNetwork_init_def Let_def)
  have dims: "obs_dim net = obs" "act_dim net = act"
    and layers: "fc_layers net = make_layers ini ([obs] @ hs @ [act])"
    by (simp_all add: net set_transformations_def)
  have vecs: "vector_fits obs (in_shift net)" "vector_fits obs (in_scale net)"
    "vector_fits act (out_shift net)" "vector_fits act (out_scale net)"
    using assms(2-5)
    by (simp_all add: net set_transformations_def vector_fits_def given_fits_def zeros_def
        ones_def from_numpy_def split: option.splits)
  from dims layers vecs make_layers_fit [of obs ini hs act] make_layers_last [of ini obs hs act]
  show ?thesis
    by (simp add: well_formed_def)
qed

text \<open>
  On every network with at least one layer \<^verbatim>\<open>forward\<close> agrees with the composition
  of the specification once that is applied to the relocated input, errors included.
  For a well-formed network, which every constructed network is, and a batch of
  width \<^verbatim>\<open>obs_dim\<close> no step raises, and the result holds that composition of every
  row of the batch. Well-formedness demands that all tensors are on the CPU, where
  \<^verbatim>\<open>forward\<close> puts its input.
\<close>

lemma forward_refines_composition:
  "(fc_layers self \<noteq> [] \<longrightarrow> forward self x = normalized_mlp self (relocate_input x)) \<and>
   (well_formed self \<and> batch_fits (obs_dim self) x \<longrightarrow>
      forward self x =
        Inr \<lparr>dev2 = CPU, ncols = act_dim self, rows2 = map (forward_row self) (rows2 x)\<rparr>)"
proof (intro conjI impI)
  assume "fc_layers self \<noteq> []"
  then show "forward self x = normalized_mlp self (relocate_input x)"
    by (simp add: forward_def normalized_mlp_def normalize_def denormalize_def
        hidden_loop_stack and_then_def Let_def split: sum.splits)
next
  assume "well_formed self \<and> batch_fits (obs_dim self) x"
  then show "forward self x =
      Inr \<lparr>dev2 = CPU, ncols = act_dim self, rows2 = map (forward_row self) (rows2 x)\<rparr>"
    by (simp add: forward_value)
qed

lemma forward_demo_value:
  "forward demo_net demo_batch =
     Inr \<lparr>dev2 = CPU, ncols = 1,
          rows2 = [[720000005900000003 / 30000000400000001], [0]]\<rparr>"
  by (simp add: demo_net_def demo_batch_def forward_eval)

section \<open>Device migration of FCNetwork\<close>

lemma to_moves_everything: "list_all (\<lambda>d'. d' = d) (owned_devices (to d self))"
  by (simp add: owned_devices_def to_def tensor1_to_def tensor2_to_def linear_to_def
      list_all_iff)

lemma forward_after_to_cuda:
  assumes "broadcast_width (ncols x) (length (data1 (in_shift self))) \<noteq> None"
  shows "forward (to (CUDA n) self) x = Inl DeviceMismatch"
  using assms
  by (auto simp add: forward_def to_def relocate_input_def is_cuda_def tensor2_to_def
      tensor1_to_def tensor_sub_def elementwise_def Let_def split: device.splits option.splits)

text \<open>
  Claim C1, evaluated where it fails. On the example network after \<^verbatim>\<open>to('cuda:0')\<close>
  and for a batch of width \<^verbatim>\<open>obs_dim\<close> on that device, the composition the claim
  gives (normalize the batch, run the hidden layers with their nonlinearity, run the
  final layer, denormalize) is a value, since every tensor involved is on the same
  device; \<^verbatim>\<open>forward\<close> does not return it but raises a device mismatch, because it
  has copied the batch to the CPU first.
\<close>

theorem forward_raises_where_composition_returns:
  "batch_fits (obs_dim (to (CUDA 0) demo_net)) demo_batch \<and>
   normalized_mlp (to (CUDA 0) demo_net) demo_batch =
     Inr \<lparr>dev2 = CUDA 0, ncols = 1,
          rows2 = [[720000005900000003 / 30000000400000001], [0]]\<rparr> \<and>
   forward (to (CUDA 0) demo_net) demo_batch = Inl DeviceMismatch"
proof (intro conjI)
  show "batch_fits (obs_dim (to (CUDA 0) demo_net)) demo_batch"
    by (simp add: batch_fits_def to_def demo_net_def demo_batch_def)
  show "normalized_mlp (to (CUDA 0) demo_net) demo_batch =
     Inr \<lparr>dev2 = CUDA 0, ncols = 1,
          rows2 = [[720000005900000003 / 30000000400000001], [0]]\<rparr>"
    by (simp add: demo_net_def demo_batch_def to_def linear_to_def tensor1_to_def tensor2_to_def
        normalized_mlp_def normalize_def denormalize_def hidden_stack_def hidden_layer_def
        and_then_def tensor_sub_def tensor_div_def tensor_mul_def tensor_add_def elementwise_def
        broadcast_width_def broadcast_row_def add_scalar_def eps_def linear_forward_def
        affine_row_def dot_def apply_nonlinearity_def)
  show "forward (to (CUDA 0) demo_net) demo_batch = Inl DeviceMismatch"
    by (rule forward_after_to_cuda) (simp add: demo_net_def demo_batch_def broadcast_width_def)
qed

text \<open>
  Claim C2, evaluated where it fails. After \<^verbatim>\<open>to('cuda:0')\<close> every tensor the example
  network owns is on that device, as the claim says; the forward pass that follows
  copies its input to the CPU, subtracts a vector that now lives on the CUDA device,
  and raises the device mismatch the claim excludes.
\<close>

theorem to_cuda_then_forward_raises:
  "list_all (\<lambda>d. d = CUDA 0) (owned_devices (to (CUDA 0) demo_net)) \<and>
   forward (to (CUDA 0) demo_net) demo_batch = Inl DeviceMismatch"
  by (simp add: to_moves_everything forward_after_to_cuda demo_net_def demo_batch_def
      broadcast_width_def)

text \<open>
  Claim C3, evaluated where it fails. With the boundary vectors on the first CUDA
  device and an input on that same device, the relocation step of \<^verbatim>\<open>forward\<close> puts
  the input on the CPU, not where the vectors are, and the subtraction of
  \<^verbatim>\<open>in_shift\<close> raises.
\<close>

theorem forward_relocates_to_cpu_not_buffers:
  "dev1 (in_shift (to (CUDA 0) demo_net)) = CUDA 0 \<and>
   dev1 (in_scale (to (CUDA 0) demo_net)) = CUDA 0 \<and>
   dev2 demo_batch = CUDA 0 \<and>
   dev2 (relocate_input demo_batch) = CPU \<and>
   tensor_sub (relocate_input demo_batch) (in_shift (to (CUDA 0) demo_net)) = Inl DeviceMismatch"
  by (simp add: to_def tensor1_to_def relocate_input_def is_cuda_def tensor2_to_def
      demo_net_def demo_batch_def tensor_sub_def elementwise_def broadcast_width_def)

section \<open>The forward pass of FCNetworkWithBatchNorm\<close>

text \<open>
  The device that \<^verbatim>\<open>FCNetworkWithBatchNorm\<close> records is the device of everything it
  owns: after construction that is the CPU, after \<^verbatim>\<open>to(d)\<close> it is \<open>d\<close>.
\<close>

lemma make_layers_on_cpu:
  "list_all (\<lambda>l. dev2 (weight l) = CPU \<and> dev1 (bias l) = CPU) (make_layers ini sizes)"
  by (simp add: make_layers_def nn_Linear_def list_all_iff)

lemma constructed_bn_on_cpu:
  assumes "FCNetworkWithBatchNorm_init ini obs act hidden nl p dir args kwargs = Inr net"
  shows "bn_device net = CPU \<and> list_all (\<lambda>d. d = CPU) (owned_devices_bn net)"
  using assms make_layers_on_cpu [of ini "[obs] @ elements hidden @ [act]"]
  by (auto simp add: FCNetworkWithBatchNorm_init_def Let_def owned_devices_bn_def list_all_iff
      split: if_splits)

lemma to_bn_moves_everything:
  "bn_device (to_bn d self) = d \<and> list_all (\<lambda>d'. d' = d) (owned_devices_bn (to_bn d self))"
  by (simp add: owned_devices_bn_def to_bn_def tensor1_to_def tensor2_to_def linear_to_def
      list_all_iff)

lemma hidden_stack_bn_Inl: "hidden_stack_bn lib p nl ls (Inl e, st) = (Inl e, st)"
  by (induction ls) (simp_all add: hidden_stack_bn_def)

lemma hidden_stack_bn_Cons:
  "hidden_stack_bn lib p nl (l # ls) (Inr x, st) =
   hidden_stack_bn lib p nl ls (hidden_layer_bn lib p nl l st x)"
  by (simp add: hidden_stack_bn_def)

lemma hidden_loop_bn_stack:
  "hidden_loop_bn lib p nl ls i st out =
   hidden_stack_bn lib p nl (drop i (butlast ls)) (Inr out, st)"
proof (induction lib p nl ls i st out rule: hidden_loop_bn.induct)
  case (1 lib p nl layers i st out)
  show ?case
  proof (cases "i < length layers - 1")
    case False
    then show ?thesis
      by (simp add: hidden_loop_bn.simps [of lib p nl layers i st out] hidden_stack_bn_def)
  next
    case True
    then have d: "drop i (butlast layers) = layers ! i # drop (Suc i) (butlast layers)"
      by (simp add: Cons_nth_drop_Suc [symmetric] nth_butlast)
    show ?thesis
    proof (cases "linear_forward (layers ! i) out")
      case (Inl e)
      with True show ?thesis
        by (simp add: hidden_loop_bn.simps [of lib p nl layers i st out] d
            hidden_stack_bn_Cons hidden_layer_bn_def hidden_stack_bn_Inl)
    next
      case (Inr y)
      obtain z st' where dr: "dropout_forward lib p st y = (z, st')"
        by (cases "dropout_forward lib p st y")
      from "1.IH" [OF True Inr dr [symmetric]] True Inr dr show ?thesis
        by (simp add: hidden_loop_bn.simps [of lib p nl layers i st out] d
            hidden_stack_bn_Cons hidden_layer_bn_def)
    qed
  qed
qed

text \<open>
  Claim C5. For every \<^verbatim>\<open>FCNetworkWithBatchNorm\<close> with at least one layer, every
  library state and every input batch, \<^verbatim>\<open>forward\<close> relocates the input to the
  network's device, applies the input batch normalization, runs every hidden layer as
  affine transform, dropout, nonlinearity in that order, and ends with the final
  affine layer alone: no dropout, no nonlinearity and no denormalization follow it.
\<close>

theorem forward_bn_is_composition:
  assumes "bn_fc_layers self \<noteq> []"
  shows "forward_bn lib self st x = batchnorm_mlp lib self st x"
  using assms
  by (simp add: forward_bn_def batchnorm_mlp_def hidden_loop_bn_stack Let_def
      split: sum.splits prod.splits)

theorem forward_bn_is_composition_witness:
  "bn_fc_layers demo_bn_net \<noteq> [] \<and>
   batchnorm_mlp demo_lib demo_bn_net 0 demo_batch =
     (Inr \<lparr>dev2 = CPU, ncols = 1, rows2 = [[45], [0]]\<rparr>, 2)"
proof -
  have layers: "bn_fc_layers demo_bn_net \<noteq> []"
    by (simp add: demo_bn_net_def)
  have "forward_bn demo_lib demo_bn_net 0 demo_batch =
     (Inr \<lparr>dev2 = CPU, ncols = 1, rows2 = [[45], [0]]\<rparr>, 2)"
    by (simp add: demo_bn_net_def demo_batch_def demo_lib_def forward_bn_def
        batchnorm_forward_def dropout_forward_def hidden_loop_bn.simps tensor2_to_def
        linear_forward_def affine_row_def dot_def apply_nonlinearity_def)
  with layers forward_bn_is_composition [OF layers, of demo_lib 0 demo_batch] show ?thesis
    by simp
qed

section \<open>Observers\<close>

lemma length_register_hooks_layers [simp]:
  "length (register_hooks_layers ls) = length ls"
  by (simp add: register_hooks_layers_def)

lemma register_hooks_layers_nth:
  "i < length ls \<Longrightarrow> register_hooks_layers ls ! i =
     register_forward_hook (hook_fn (''fc_layer_'' @ str_nat i)) (ls ! i)"
  by (simp add: register_hooks_layers_def nth_enumerate_eq)

lemma register_hooks_layers_hooks:
  "map forward_hooks (register_hooks_layers ls) =
   map (\<lambda>(i, l). forward_hooks l @ [Hook (''fc_layer_'' @ str_nat i)]) (enumerate 0 ls)"
  by (simp add: register_hooks_layers_def register_forward_hook_def hook_fn_def
      case_prod_unfold comp_def)

lemma register_hooks_layers_counts:
  "map (\<lambda>l. length (forward_hooks l)) (register_hooks_layers ls) =
   map (\<lambda>l. Suc (length (forward_hooks l))) ls"
  by (rule nth_equalityI)
     (simp_all add: register_hooks_layers_nth register_forward_hook_def)

text \<open>
  Claim C8 as amended. On both network variants every call of \<^verbatim>\<open>register_hooks\<close>
  appends to each layer \<open>i\<close>, hidden or output, one observer named \<open>fc_layer_i\<close>, and
  keeps the observers that were attached before: the number of observers of every
  layer grows by one with each call.
\<close>

theorem register_hooks_appends_one_observer:
  "map forward_hooks (fc_layers (register_hooks self)) =
     map (\<lambda>(i, l). forward_hooks l @ [Hook (''fc_layer_'' @ str_nat i)])
       (enumerate 0 (fc_layers self)) \<and>
   map (\<lambda>l. length (forward_hooks l)) (fc_layers (register_hooks self)) =
     map (\<lambda>l. Suc (length (forward_hooks l))) (fc_layers self) \<and>
   map forward_hooks (bn_fc_layers (register_hooks_bn net)) =
     map (\<lambda>(i, l). forward_hooks l @ [Hook (''fc_layer_'' @ str_nat i)])
       (enumerate 0 (bn_fc_layers net)) \<and>
   map (\<lambda>l. length (forward_hooks l)) (bn_fc_layers (register_hooks_bn net)) =
     map (\<lambda>l. Suc (length (forward_hooks l))) (bn_fc_layers net)"
  by (simp add: register_hooks_def register_hooks_bn_def register_hooks_layers_counts
      register_hooks_layers_hooks)

text \<open>
  The claim as stated fails: after a second call each layer of the example network
  has two observers, not one.
\<close>

theorem register_hooks_twice_counterexample:
  "map forward_hooks (fc_layers (register_hooks demo_net)) =
     [[Hook ''fc_layer_0''], [Hook ''fc_layer_1'']] \<and>
   map forward_hooks (fc_layers (register_hooks (register_hooks demo_net))) =
     [[Hook ''fc_layer_0'', Hook ''fc_layer_0''], [Hook ''fc_layer_1'', Hook ''fc_layer_1'']]"
  by (simp add: register_hooks_def register_hooks_layers_def register_forward_hook_def
      hook_fn_def demo_net_def enumerate_eq_zip upt_rec str_nat.simps digits_def)

section \<open>Construction\<close>

text \<open>
  Claim C9. Whatever name other than \<open>relu\<close> is passed as nonlinearity, be it
  \<open>sigmoid\<close> or the empty string, both constructors do exactly what they do for
  \<open>tanh\<close>: the name raises no error of its own, and a construction that succeeds (a
  tuple of hidden sizes, and for the batch-norm variant a dropout probability in
  \<open>[0, 1]\<close>) yields a network whose nonlinearity is tanh.
\<close>

theorem unsupported_nonlinearity_is_tanh:
  assumes "nl \<noteq> ''relu''"
  shows "FCNetwork_init ini obs act hidden nl ish isc osh osc dir =
           FCNetwork_init ini obs act hidden ''tanh'' ish isc osh osc dir \<and>
         constructed_nonlinearity
           (FCNetwork_init ini obs act (PyTuple hs) nl ish isc osh osc dir) = Some Tanh \<and>
         FCNetworkWithBatchNorm_init ini obs act hidden nl p dir args kwargs =
           FCNetworkWithBatchNorm_init ini obs act hidden ''tanh'' p dir args kwargs \<and>
         (0 \<le> p \<and> p \<le> 1 \<longrightarrow>
            constructed_nonlinearity_bn
              (FCNetworkWithBatchNorm_init ini obs act (PyTuple hs) nl p dir args kwargs) =
            Some Tanh)"
  using assms
  by (simp add: FCNetwork_init_def FCNetworkWithBatchNorm_init_def resolve_nonlinearity_def
      constructed_nonlinearity_def constructed_nonlinearity_bn_def Let_def
      set_transformations_def)

theorem unsupported_nonlinearity_is_tanh_witness:
  "''sigmoid'' \<noteq> ''relu'' \<and> (0 :: real) \<le> 0 \<and> (0 :: real) \<le> 1 \<and>
   constructed_nonlinearity
     (FCNetwork_init demo_init 2 1 (PyTuple [2]) ''sigmoid'' None None None None
        ''runs/activations'') = Some Tanh \<and>
   constructed_nonlinearity_bn
     (FCNetworkWithBatchNorm_init demo_init 2 1 (PyTuple [2]) ''sigmoid'' 0
        ''runs/activations_with_batchnorm'' [] []) = Some Tanh"
proof -
  have name: "''sigmoid'' \<noteq> ''relu''"
    by simp
  from unsupported_nonlinearity_is_tanh [OF name, where ini = demo_init and obs = 2
      and act = 1 and hs = "[2]" and ish = None and isc = None and osh = None and osc = None
      and dir = "''runs/activations''", THEN conjunct2, THEN conjunct1]
    unsupported_nonlinearity_is_tanh [OF name, where ini = demo_init and obs = 2
      and act = 1 and hs = "[2]" and p = 0 and dir = "''runs/activations_with_batchnorm''"
      and args = "[]" and kwargs = "[]", THEN conjunct2, THEN conjunct2, THEN conjunct2]
  show ?thesis
    by simp
qed

text \<open>
  Claim C10. The constructor of \<^verbatim>\<open>FCNetworkWithBatchNorm\<close> ignores whatever extra
  positional and keyword arguments it is given: the outcome is that of the call
  without them, the call succeeds whenever the hidden sizes are a tuple and the
  dropout probability lies in \<open>[0, 1]\<close>, the forward pass of the network built is the
  same, and \<^verbatim>\<open>set_transformations\<close> leaves such a network as it is.
\<close>

theorem extra_arguments_are_ignored:
  "FCNetworkWithBatchNorm_init ini obs act hidden nl p dir args kwargs =
     FCNetworkWithBatchNorm_init ini obs act hidden nl p dir [] [] \<and>
   (0 \<le> p \<and> p \<le> 1 \<longrightarrow>
      \<not> isl (FCNetworkWithBatchNorm_init ini obs act (PyTuple hs) nl p dir args kwargs)) \<and>
   map_sum id (\<lambda>net. forward_bn lib net st x)
     (FCNetworkWithBatchNorm_init ini obs act hidden nl p dir args kwargs) =
   map_sum id (\<lambda>net. forward_bn lib net st x)
     (FCNetworkWithBatchNorm_init ini obs act hidden nl p dir [] []) \<and>
   set_transformations_bn args kwargs net = net"
  by (simp add: FCNetworkWithBatchNorm_init_def set_transformations_bn_def Let_def)

theorem extra_arguments_are_ignored_witness:
  "(0 :: real) \<le> 1 / 2 \<and> (1 / 2 :: real) \<le> 1 \<and>
   FCNetworkWithBatchNorm_init demo_init 2 1 (PyTuple [2]) ''relu'' (1 / 2)
     ''runs/activations_with_batchnorm'' [PyInt 7]
     [(''in_shift'', PyArray [1, 0]), (''in_scale'', PyArray [1, 3]),
      (''out_shift'', PyNone), (''out_scale'', PyNone)] = Inr demo_bn_net \<and>
   FCNetworkWithBatchNorm_init demo_init 2 1 (PyTuple [2]) ''relu'' (1 / 2)
     ''runs/activations_with_batchnorm'' [] [] = Inr demo_bn_net"
proof -
  have "FCNetworkWithBatchNorm_init demo_init 2 1 (PyTuple [2]) ''relu'' (1 / 2)
     ''runs/activations_with_batchnorm'' [] [] = Inr demo_bn_net"
    by (simp add: FCNetworkWithBatchNorm_init_def demo_init_def make_layers_def
        nn_Linear_def resolve_nonlinearity_def demo_bn_net_def upt_rec)
  with extra_arguments_are_ignored [THEN conjunct1, of demo_init 2 1 "PyTuple [2]" "''relu''"
      "1 / 2" "''runs/activations_with_batchnorm''" "[PyInt 7]"
      "[(''in_shift'', PyArray [1, 0]), (''in_scale'', PyArray [1, 3]),
        (''out_shift'', PyNone), (''out_scale'', PyNone)]"]
  show ?thesis
    by simp
qed

section \<open>The default transformations of FCNetwork\<close>

text \<open>
  Over the exact arithmetic the definitions of this part are those of the sections
  above.
\<close>

lemma linear_forward_in_exact: "linear_forward_in exact_arithmetic l x = linear_forward l x"
  by (simp add: linear_forward_in_def linear_forward_def affine_row_in_def affine_row_def
      exact_arithmetic_def)

lemma apply_nonlinearity_in_exact:
  "apply_nonlinearity_in exact_arithmetic nl x = apply_nonlinearity nl x"
  by (simp add: apply_nonlinearity_in_def apply_nonlinearity_def exact_arithmetic_def)

lemma hidden_loop_in_exact: "hidden_loop_in exact_arithmetic nl ls i out = hidden_loop nl ls i out"
proof (induction nl ls i out rule: hidden_loop.induct)
  case (1 nl layers i out)
  show ?case
  proof (cases "i < length layers - 1")
    case False
    then show ?thesis
      by (simp add: hidden_loop.simps [of nl layers i out]
          hidden_loop_in.simps [of _ nl layers i out])
  next
    case True
    show ?thesis
    proof (cases "linear_forward (layers ! i) out")
      case (Inl e)
      with True show ?thesis
        by (simp add: hidden_loop.simps [of nl layers i out]
            hidden_loop_in.simps [of _ nl layers i out] linear_forward_in_exact)
    next
      case (Inr y)
      with True "1.IH" [OF True Inr] show ?thesis
        by (simp add: hidden_loop.simps [of nl layers i out]
            hidden_loop_in.simps [of _ nl layers i out] linear_forward_in_exact
            apply_nonlinearity_in_exact)
    qed
  qed
qed

lemma forward_in_exact: "forward_in exact_arithmetic self x = forward self x"
proof -
  have ops: "ar_sub exact_arithmetic = (\<lambda>a b. a - b)" "ar_div exact_arithmetic = (\<lambda>a b. a / b)"
    "ar_mul exact_arithmetic = (\<lambda>a b. a * b)" "ar_add exact_arithmetic = (\<lambda>a b. a + b)"
    by (simp_all add: exact_arithmetic_def)
  have sc: "add_scalar_in exact_arithmetic v c = add_scalar v c" for v c
    by (simp add: add_scalar_in_def add_scalar_def exact_arithmetic_def)
  show ?thesis
    by (simp only: forward_in_def forward_def ops sc hidden_loop_in_exact
        linear_forward_in_exact tensor_sub_def tensor_div_def tensor_mul_def tensor_add_def)
qed

lemma FCNetwork_init_in_exact:
  "FCNetwork_init_in exact_arithmetic ini obs act hidden_sizes nl ish isc osh osc dir =
   FCNetwork_init ini obs act hidden_sizes nl ish isc osh osc dir"
proof -
  have vecs: "zeros_in exact_arithmetic n = zeros n" "ones_in exact_arithmetic n = ones n"
    "from_numpy_in exact_arithmetic xs = from_numpy xs" for n xs
    by (simp_all add: zeros_in_def zeros_def ones_in_def ones_def from_numpy_in_def
        from_numpy_def exact_arithmetic_def)
  have layers: "make_layers_in exact_arithmetic ini sizes = make_layers ini sizes" for sizes
    by (simp add: make_layers_in_def make_layers_def nn_Linear_in_def nn_Linear_def
        exact_arithmetic_def)
  have st: "set_transformations_in exact_arithmetic a b c d self =
            set_transformations a b c d self" for a b c d self
    by (simp add: set_transformations_in_def set_transformations_def vecs split: option.splits)
  show ?thesis
    by (simp only: FCNetwork_init_in_def FCNetwork_init_def vecs layers st)
qed

lemma exact_arithmetic_rounds_nothing: "\<not> identities_hold exact_arithmetic"
  by (simp add: identities_hold_def exact_arithmetic_def eps_def)

lemma hidden_stack_in_Inl: "hidden_stack_in ar nl ls (Inl e) = Inl e"
  by (induction ls) (simp_all add: hidden_stack_in_def and_then_def)

lemma hidden_stack_in_Cons:
  "hidden_stack_in ar nl (l # ls) (Inr x) = hidden_stack_in ar nl ls (hidden_layer_in ar nl l x)"
  by (simp add: hidden_stack_in_def and_then_def)







lemma make_layers_in_last:
  "make_layers_in ar ini ([obs] @ hs @ [act]) \<noteq> [] \<and>
   length (rows2 (weight (last (make_layers_in ar ini ([obs] @ hs @ [act]))))) = act"
  by (simp add: make_layers_in_def last_map nn_Linear_in_def nth_append)


lemma default_constructed:
  assumes "FCNetwork_init_in ar ini obs act hidden_sizes nl None None None None dir = Inr net"
  shows "in_shift net = zeros_in ar obs" and "in_scale net = ones_in ar obs"
    and "out_shift net = zeros_in ar act" and "out_scale net = ones_in ar act"
    and "fc_layers net = make_layers_in ar ini ([obs] @ elements hidden_sizes @ [act])"
    and "nonlinearity net = resolve_nonlinearity nl"
  using assms
  by (auto simp add: FCNetwork_init_in_def Let_def set_transformations_in_def
      split: if_splits)









text \<open>
  Neither failure depends on the arithmetic: in every arithmetic \<^verbatim>\<open>forward\<close> of a
  network constructed without normalization vectors accepts a batch of width 1,
  whatever \<^verbatim>\<open>obs_dim\<close> is, up to its first layer, which the plain perceptron refuses
  whenever \<^verbatim>\<open>obs_dim\<close> is not 1.
\<close>

lemma plain_mlp_refuses_narrow_batch:
  assumes "FCNetwork_init_in ar ini obs act hidden_sizes nl None None None None dir = Inr net"
    and "ncols x = 1" and "obs \<noteq> 1" and "dev2 x = CPU"
  shows "plain_mlp ar net x = Inl ShapeMismatch"
proof -
  note net = default_constructed [OF assms(1)]
  let ?sizes = "[obs] @ elements hidden_sizes @ [act]"
  let ?ls = "make_layers_in ar ini ?sizes"
  have ne: "?ls \<noteq> []"
    using make_layers_in_last [of ar ini obs "elements hidden_sizes" act] by simp
  have hd: "?ls = nn_Linear_in ar ini 0 obs (?sizes ! 1) # tl ?ls"
    by (simp add: make_layers_in_def upt_rec)
  have first: "linear_forward_in ar (nn_Linear_in ar ini 0 obs m) x = Inl ShapeMismatch" for m
    using assms(2-4) by (simp add: linear_forward_in_def nn_Linear_in_def)
  show ?thesis
  proof (cases "tl ?ls = []")
    case True
    with hd have "last ?ls = nn_Linear_in ar ini 0 obs (?sizes ! 1)" and "butlast ?ls = []"
      by (metis last.simps, metis butlast.simps(2))
    then show ?thesis
      using ne by (simp add: plain_mlp_def net(5) hidden_stack_in_def and_then_def first)
  next
    case False
    with hd have "butlast ?ls = nn_Linear_in ar ini 0 obs (?sizes ! 1) # butlast (tl ?ls)"
      by (metis butlast.simps(2))
    then show ?thesis
      using ne
      by (simp add: plain_mlp_def net(5) hidden_stack_in_Cons hidden_layer_in_def
          and_then_def first hidden_stack_in_Inl)
  qed
qed

section \<open>Truncating a log\<close>

lemma py_min_Min: "ns \<noteq> [] \<Longrightarrow> py_min ns = Some (Min (set ns))"
  by (cases ns) (simp_all add: Min.set_eq_fold [symmetric])

lemma py_max_Max: "ns \<noteq> [] \<Longrightarrow> py_max ns = Some (Max (set ns))"
  by (cases ns) (simp_all add: Max.set_eq_fold [symmetric])

lemma Min_eq_Max_iff:
  assumes "ns \<noteq> []"
  shows "Min (set ns) = Max (set ns) \<longleftrightarrow> \<not> diverge ns"
proof
  assume eq: "Min (set ns) = Max (set ns)"
  have "a = Min (set ns)" if "a \<in> set ns" for a
  proof -
    from that have "Min (set ns) \<le> a" and "a \<le> Max (set ns)"
      by simp_all
    with eq show ?thesis
      by simp
  qed
  then show "\<not> diverge ns"
    unfolding diverge_def by metis
next
  assume nd: "\<not> diverge ns"
  from assms have "Min (set ns) \<in> set ns" "Max (set ns) \<in> set ns"
    by (auto intro: Min_in Max_in)
  with nd show "Min (set ns) = Max (set ns)"
    unfolding diverge_def by blast
qed

text \<open>
  Claim C7 as amended. For every log and every \<open>n \<ge> 0\<close>, \<^verbatim>\<open>shrink_to(n)\<close>
  truncates every series to its first \<open>n\<close> entries, sets \<^verbatim>\<open>max_len\<close> to \<open>n\<close>, and
  then compares the shortest with the longest series. On a log without series
  \<^verbatim>\<open>min\<close> raises a value error. Otherwise the assertion fails exactly when the
  truncated lengths differ; when it fails, the lengths differed before the call and
  some series was shorter than \<open>n\<close>. The truncation stays in place when the call
  raises.
\<close>

theorem shrink_to_asserts_after_truncation:
  assumes "0 \<le> n"
  shows "snd (shrink_to n self) =
           self\<lparr>log := map (\<lambda>(key, xs). (key, take (nat n) xs)) (log self), max_len := n\<rparr> \<and>
         fst (shrink_to n self) =
           (if log self = [] then Some ValueError
            else if diverge (map (\<lambda>(key, xs). min (length xs) (nat n)) (log self))
            then Some AssertionError else None) \<and>
         (fst (shrink_to n self) = Some AssertionError \<longrightarrow>
            diverge (series_lengths self) \<and> (\<exists>k \<in> set (series_lengths self). k < nat n))"
proof -
  let ?L = "map (\<lambda>(key, xs). min (length xs) (nat n)) (log self)"
  let ?self' = "self\<lparr>log := map (\<lambda>(key, xs). (key, slice_to n xs)) (log self), max_len := n\<rparr>"
  have sl: "series_lengths ?self' = ?L"
    using assms by (simp add: series_lengths_def slice_to_def case_prod_unfold comp_def)
  have st: "snd (shrink_to n self) = ?self'"
    by (simp add: shrink_to_def Let_def split: option.splits)
  have tk: "map (\<lambda>(key, xs). (key, slice_to n xs)) (log self) =
            map (\<lambda>(key, xs). (key, take (nat n) xs)) (log self)"
    using assms by (simp add: slice_to_def)
  have er: "fst (shrink_to n self) =
      (if log self = [] then Some ValueError
       else if diverge ?L then Some AssertionError else None)"
  proof (cases "log self = []")
    case True
    then show ?thesis
      by (simp add: shrink_to_def Let_def series_lengths_def)
  next
    case False
    then have ne: "?L \<noteq> []"
      by simp
    from False Min_eq_Max_iff [OF ne] show ?thesis
      by (simp add: shrink_to_def Let_def sl py_min_Min [OF ne] py_max_Max [OF ne])
  qed
  have before: "diverge (series_lengths self) \<and> (\<exists>k \<in> set (series_lengths self). k < nat n)"
    if "diverge ?L"
  proof -
    from that obtain p q where p: "p \<in> set (log self)" and q: "q \<in> set (log self)"
      and d: "min (length (snd p)) (nat n) \<noteq> min (length (snd q)) (nat n)"
      unfolding diverge_def by (auto simp add: case_prod_unfold)
    then have "length (snd p) \<noteq> length (snd q)"
      and "length (snd p) < nat n \<or> length (snd q) < nat n"
      by (auto simp add: min_def split: if_splits)
    with p q show ?thesis
      unfolding diverge_def series_lengths_def
      by (auto simp add: case_prod_unfold
          intro!: bexI [of _ "length (snd p)"] bexI [of _ "length (snd q)"])
  qed
  from st tk er before show ?thesis
    by (simp split: if_splits)
qed

theorem shrink_to_asserts_after_truncation_witness:
  "(0 :: int) \<le> 2 \<and>
   shrink_to 2 short_log =
     (Some AssertionError,
      \<lparr>use_wandb = False, log = [(''loss'', [7]), (''reward'', [1, 2])],
       max_len = 2, global_step = 0\<rparr>) \<and>
   series_lengths short_log = [1, 3] \<and>
   shrink_to 2 (DataLog_init :: int DataLog) =
     (Some ValueError, \<lparr>use_wandb = False, log = [], max_len = 2, global_step = 0\<rparr>)"
proof -
  have n: "(0 :: int) \<le> 2"
    by simp
  have d: "diverge (map (\<lambda>(key, xs). min (length xs) (nat 2)) (log short_log))"
    unfolding diverge_def
    by (rule bexI [of _ 1], rule bexI [of _ 2]) (simp_all add: short_log_def)
  from shrink_to_asserts_after_truncation [OF n, of short_log] d
  have "snd (shrink_to 2 short_log) =
          \<lparr>use_wandb = False, log = [(''loss'', [7]), (''reward'', [1, 2])],
           max_len = 2, global_step = 0\<rparr>"
    and "fst (shrink_to 2 short_log) = Some AssertionError"
    by (simp_all add: short_log_def)
  then have one: "shrink_to 2 short_log =
     (Some AssertionError,
      \<lparr>use_wandb = False, log = [(''loss'', [7]), (''reward'', [1, 2])],
       max_len = 2, global_step = 0\<rparr>)"
    by (simp add: prod_eq_iff)
  from shrink_to_asserts_after_truncation [OF n, of "DataLog_init :: int DataLog"]
  have "snd (shrink_to 2 (DataLog_init :: int DataLog)) =
          \<lparr>use_wandb = False, log = [], max_len = 2, global_step = 0\<rparr>"
    and "fst (shrink_to 2 (DataLog_init :: int DataLog)) = Some ValueError"
    by (simp_all add: DataLog_init_def)
  then have two: "shrink_to 2 (DataLog_init :: int DataLog) =
     (Some ValueError, \<lparr>use_wandb = False, log = [], max_len = 2, global_step = 0\<rparr>)"
    by (simp add: prod_eq_iff)
  from n one two show ?thesis
    by (simp add: series_lengths_def short_log_def)
qed

text \<open>
  The claim as stated fails: the series of the example log have lengths 3 and 5,
  and \<^verbatim>\<open>shrink_to(2)\<close> passes its assertion.
\<close>

theorem shrink_to_diverged_counterexample:
  "series_lengths demo_log = [3, 5] \<and>
   shrink_to 2 demo_log =
     (None, \<lparr>use_wandb = False, log = [(''loss'', [1, 2]), (''reward'', [1, 2])],
             max_len = 2, global_step = 0\<rparr>)"
  by (simp add: shrink_to_def series_lengths_def slice_to_def demo_log_def)

section \<open>Restoring a log\<close>

lemma map_of_append_entry:
  "map_of (append_entry k v d) = (map_of d)(k := map_option (\<lambda>xs. xs @ [v]) (map_of d k))"
  by (simp add: append_entry_def map_of_map_entry fun_eq_iff split: option.splits)

lemma eval_scalar:
  assumes "scalar_row py keys row" and "a \<in> set keys"
  shows "(case row a of None \<Rightarrow> None | Some s \<Rightarrow> py_eval py sc s) = parsed py row a"
proof (cases "row a")
  case None
  then show ?thesis
    by (simp add: parsed_def)
next
  case (Some s)
  with assms have "scope_free py s"
    by (auto simp add: scalar_row_def)
  then have "py_eval py sc s = py_eval py no_scope s"
    unfolding scope_free_def by (rule spec)
  with Some show ?thesis
    by (simp add: parsed_def)
qed

lemma read_field_parsed:
  assumes "scalar_row py keys row" and "a \<in> set keys"
  shows "read_field py sc row a (data, out) =
     (case parsed py row a of
        None \<Rightarrow> (data, out @ [ReadError a (row a)])
      | Some v \<Rightarrow>
          (case map_of data a of
             None \<Rightarrow> (data, out @ [ReadError a (row a)])
           | Some xs \<Rightarrow> (append_entry a v data, out)))"
  unfolding read_field_def prod.case eval_scalar [OF assms] ..

lemma read_field_map:
  assumes "scalar_row py keys row" and "a \<in> set keys"
  shows "map_of (fst (read_field py sc row a acc)) k =
     (if k = a
      then map_option (\<lambda>xs. xs @ (case parsed py row a of None \<Rightarrow> [] | Some v \<Rightarrow> [v]))
             (map_of (fst acc) a)
      else map_of (fst acc) k)"
  by (cases acc; cases "parsed py row a"; cases "map_of (fst acc) a")
     (simp_all add: read_field_parsed [OF assms] map_of_append_entry option.map_ident)

lemma read_field_out:
  assumes "scalar_row py keys row" and "a \<in> set keys"
  shows "map_of (fst acc) a \<noteq> None \<Longrightarrow>
   snd (read_field py sc row a acc) =
     snd acc @ (if parsed py row a = None then [ReadError a (row a)] else [])"
  by (cases acc; cases "parsed py row a")
     (auto simp add: read_field_parsed [OF assms])

lemma fold_read_field_map:
  assumes "scalar_row py keys row" and "set ks \<subseteq> set keys"
  shows "map_of (fst (fold (read_field py sc row) ks acc)) k =
     map_option (\<lambda>xs. xs @ restored_row py ks row k) (map_of (fst acc) k)"
  using assms(2)
proof (induction ks arbitrary: acc)
  case Nil
  then show ?case
    by (simp add: restored_row_def option.map_ident split: option.splits)
next
  case (Cons a ks)
  then have a: "a \<in> set keys" and ks: "set ks \<subseteq> set keys"
    by simp_all
  show ?case
    by (cases "map_of (fst acc) k"; cases "parsed py row k")
       (auto simp add: Cons.IH [OF ks] read_field_map [OF assms(1) a] restored_row_def
          replicate_append_same)
qed

lemma fold_read_field_out:
  assumes "scalar_row py keys row" and "set ks \<subseteq> set keys"
  shows "\<forall>k \<in> set ks. map_of (fst acc) k \<noteq> None \<Longrightarrow>
   snd (fold (read_field py sc row) ks acc) = snd acc @ row_diagnostics py ks row"
  using assms(2)
proof (induction ks arbitrary: acc)
  case Nil
  then show ?case
    by (simp add: row_diagnostics_def)
next
  case (Cons a ks)
  then have a: "a \<in> set keys" and ks: "set ks \<subseteq> set keys"
    by simp_all
  have "\<forall>k \<in> set ks. map_of (fst (read_field py sc row a acc)) k \<noteq> None"
    using Cons.prems(1) by (auto simp add: read_field_map [OF assms(1) a])
  from Cons.IH [OF this ks] Cons.prems(1) show ?case
    by (simp add: read_field_out [OF assms(1) a] row_diagnostics_def)
qed

lemma restored_row_iteration:
  assumes "''iteration'' \<in> set keys" and "parsed py row ''iteration'' = Some v"
  shows "restored_row py keys row ''iteration'' \<noteq> []"
    and "last (xs @ restored_row py keys row ''iteration'') = v"
proof -
  from assms(1) have "count_list keys ''iteration'' \<noteq> 0"
    by (simp add: count_list_0_iff)
  then obtain n where "count_list keys ''iteration'' = Suc n"
    by (cases "count_list keys ''iteration''") simp_all
  with assms(2) show "restored_row py keys row ''iteration'' \<noteq> []"
    and "last (xs @ restored_row py keys row ''iteration'') = v"
    by (simp_all add: restored_row_def del: replicate_Suc replicate.simps add: last_append)
qed

lemma read_rows_Cons:
  "read_rows py sc keys i (r # rest) data out =
     (let acc = fold (read_field py (sc\<lparr>sc_row := i\<rparr>) r) keys (data, out) in
      case map_of (fst acc) ''iteration'' of
        None \<Rightarrow> read_rows py sc keys (Suc i) rest (fst acc) (snd acc)
      | Some its \<Rightarrow>
          if its = [] then (Some IndexError, fst acc, snd acc)
          else if py_ne py (last its) i then (Some (IterationMismatch i), fst acc, snd acc)
          else read_rows py sc keys (Suc i) rest (fst acc) (snd acc))"
  by (cases "fold (read_field py (sc\<lparr>sc_row := i\<rparr>) r) keys (data, out)")
     (simp add: Let_def split: option.splits)

lemma scalar_table_Cons:
  "scalar_table py keys (r # rest) = (scalar_row py keys r \<and> scalar_table py keys rest)"
  by (simp add: scalar_table_def)

lemma read_rows_ok:
  assumes "scalar_table py keys rows"
    and "\<forall>k. (map_of data k \<noteq> None) = (k \<in> set keys)"
    and "''iteration'' \<notin> set keys \<or> iteration_agrees py i rows"
  shows "fst (read_rows py sc keys i rows data out) = None \<and>
         (\<forall>k. map_of (fst (snd (read_rows py sc keys i rows data out))) k =
                map_option (\<lambda>xs. xs @ restored_series py keys rows k) (map_of data k)) \<and>
         snd (snd (read_rows py sc keys i rows data out)) = out @ diagnostics py keys rows"
  using assms
proof (induction rows arbitrary: i data out)
  case Nil
  then show ?case
    by (simp add: restored_series_def diagnostics_def option.map_ident)
next
  case (Cons r rest)
  let ?acc = "fold (read_field py (sc\<lparr>sc_row := i\<rparr>) r) keys (data, out)"
  from Cons.prems(1) have r: "scalar_row py keys r" and rs: "scalar_table py keys rest"
    by (simp_all add: scalar_table_Cons)
  have m: "map_of (fst ?acc) k =
       map_option (\<lambda>xs. xs @ restored_row py keys r k) (map_of data k)" for k
    by (simp add: fold_read_field_map [OF r])
  have o: "snd ?acc = out @ row_diagnostics py keys r"
    using Cons.prems(2) by (simp add: fold_read_field_out [OF r])
  have dom: "\<forall>k. (map_of (fst ?acc) k \<noteq> None) = (k \<in> set keys)"
    using Cons.prems(2) by (simp add: m)
  have rest: "''iteration'' \<notin> set keys \<or> iteration_agrees py (Suc i) rest"
    using Cons.prems(3) by (auto simp add: iteration_agrees_def)
  have step: "read_rows py sc keys i (r # rest) data out =
       read_rows py sc keys (Suc i) rest (fst ?acc) (snd ?acc)"
  proof (cases "''iteration'' \<in> set keys")
    case False
    with dom have "map_of (fst ?acc) ''iteration'' = None"
      by blast
    then show ?thesis
      by (simp add: read_rows_Cons Let_def del: read_rows.simps)
  next
    case True
    with Cons.prems(3) obtain v where v: "parsed py r ''iteration'' = Some v"
      and agree: "\<not> py_ne py v i"
      by (auto simp add: iteration_agrees_def agrees_at_def split: option.splits)
    from True Cons.prems(2) obtain xs where xs: "map_of data ''iteration'' = Some xs"
      by auto
    from xs restored_row_iteration(1) [OF True v] restored_row_iteration(2) [OF True v, of xs]
      agree show ?thesis
      by (simp add: read_rows_Cons Let_def m del: read_rows.simps)
  qed
  from Cons.IH [OF rs dom rest, where out = "snd ?acc"] show ?case
    by (simp add: step m o restored_series_def diagnostics_def option.map_comp comp_def
        del: read_rows.simps)
qed

lemma read_rows_fatal:
  assumes "''iteration'' \<in> set keys"
  shows "scalar_table py keys rows \<Longrightarrow> map_of data ''iteration'' \<noteq> None \<Longrightarrow>
    j < length rows \<Longrightarrow> parsed py (rows ! j) ''iteration'' = Some v \<Longrightarrow> py_ne py v (i + j) \<Longrightarrow>
    \<exists>e. fst (read_rows py sc keys i rows data out) = Some e \<and>
        (e = IndexError \<or> (\<exists>j' \<le> j. e = IterationMismatch (i + j')))"
proof (induction rows arbitrary: i j data out)
  case Nil
  then show ?case
    by simp
next
  case (Cons r rest)
  let ?acc = "fold (read_field py (sc\<lparr>sc_row := i\<rparr>) r) keys (data, out)"
  from Cons.prems(1) have r: "scalar_row py keys r" and rs: "scalar_table py keys rest"
    by (simp_all add: scalar_table_Cons)
  from Cons.prems(2) obtain xs where xs: "map_of data ''iteration'' = Some xs"
    by auto
  let ?its = "xs @ restored_row py keys r ''iteration''"
  have m: "map_of (fst ?acc) ''iteration'' = Some ?its"
    by (simp add: fold_read_field_map [OF r] xs)
  show ?case
  proof (cases "?its = [] \<or> py_ne py (last ?its) i")
    case True
    then show ?thesis
      by (auto simp add: read_rows_Cons Let_def m simp del: read_rows.simps)
  next
    case False
    then have a: "?its \<noteq> []" and b: "\<not> py_ne py (last ?its) i"
      by blast+
    have step: "read_rows py sc keys i (r # rest) data out =
        read_rows py sc keys (Suc i) rest (fst ?acc) (snd ?acc)"
      by (simp only: read_rows_Cons Let_def m option.case a b if_False)
    have "j \<noteq> 0"
    proof
      assume "j = 0"
      with Cons.prems(4) have "parsed py r ''iteration'' = Some v"
        by simp
      from restored_row_iteration(2) [OF assms this, of xs] b \<open>j = 0\<close> Cons.prems(5)
      show False
        by simp
    qed
    then obtain j0 where j: "j = Suc j0"
      by (cases j) simp_all
    have "map_of (fst ?acc) ''iteration'' \<noteq> None"
      by (simp add: m)
    from Cons.IH [OF rs this, where j = j0 and i = "Suc i" and out = "snd ?acc"] Cons.prems j
    obtain e where "fst (read_rows py sc keys (Suc i) rest (fst ?acc) (snd ?acc)) = Some e"
      and "e = IndexError \<or> (\<exists>j' \<le> j0. e = IterationMismatch (Suc i + j'))"
      by auto
    then show ?thesis
      unfolding step j
      by (auto intro: exI [of _ "Suc _"])
  qed
qed

lemma read_rows_first_bad:
  assumes it: "''iteration'' \<in> set keys" and coh: "coherent py"
  shows "scalar_table py keys rows \<Longrightarrow> \<forall>k. (map_of data k \<noteq> None) = (k \<in> set keys) \<Longrightarrow>
    map_of data ''iteration'' = Some xs \<Longrightarrow>
    (xs \<noteq> [] \<longrightarrow> (\<exists>i0 < i. \<not> py_ne py (last xs) i0)) \<Longrightarrow>
    \<not> iteration_agrees py i rows \<Longrightarrow>
    \<exists>j < length rows.
       (\<forall>k < j. agrees_at py (i + k) (rows ! k)) \<and> \<not> agrees_at py (i + j) (rows ! j) \<and>
       fst (read_rows py sc keys i rows data out) =
         Some (if xs = [] \<and> j = 0 \<and> parsed py (rows ! 0) ''iteration'' = None
               then IndexError else IterationMismatch (i + j)) \<and>
       snd (snd (read_rows py sc keys i rows data out)) =
         out @ diagnostics py keys (take (Suc j) rows)"
proof (induction rows arbitrary: i data out xs)
  case Nil
  then show ?case
    by (simp add: iteration_agrees_def)
next
  case (Cons r rest)
  let ?acc = "fold (read_field py (sc\<lparr>sc_row := i\<rparr>) r) keys (data, out)"
  let ?its = "xs @ restored_row py keys r ''iteration''"
  from Cons.prems(1) have r: "scalar_row py keys r" and rs: "scalar_table py keys rest"
    by (simp_all add: scalar_table_Cons)
  have m: "map_of (fst ?acc) k =
       map_option (\<lambda>xs. xs @ restored_row py keys r k) (map_of data k)" for k
    by (simp add: fold_read_field_map [OF r])
  have mi: "map_of (fst ?acc) ''iteration'' = Some ?its"
    by (simp add: m Cons.prems(3))
  have o: "snd ?acc = out @ row_diagnostics py keys r"
    using Cons.prems(2) by (simp add: fold_read_field_out [OF r])
  have dom: "\<forall>k. (map_of (fst ?acc) k \<noteq> None) = (k \<in> set keys)"
    using Cons.prems(2) by (simp add: m)
  show ?case
  proof (cases "agrees_at py i r")
    case True
    then obtain v where v: "parsed py r ''iteration'' = Some v" and agree: "\<not> py_ne py v i"
      by (auto simp add: agrees_at_def split: option.splits)
    have ne: "?its \<noteq> []" and la: "last ?its = v"
      using restored_row_iteration(1) [OF it v] restored_row_iteration(2) [OF it v, of xs]
      by simp_all
    have step: "read_rows py sc keys i (r # rest) data out =
        read_rows py sc keys (Suc i) rest (fst ?acc) (snd ?acc)"
      using ne la agree by (simp only: read_rows_Cons Let_def mi option.case if_False)
    have pre: "?its \<noteq> [] \<longrightarrow> (\<exists>i0 < Suc i. \<not> py_ne py (last ?its) i0)"
      using la agree by auto
    have bad: "\<not> iteration_agrees py (Suc i) rest"
      using Cons.prems(5) True by (simp add: iteration_agrees_def)
    from Cons.IH [OF rs dom mi pre bad, where out = "snd ?acc"] ne
    obtain j0 where j0: "j0 < length rest"
      and before: "\<forall>k < j0. agrees_at py (Suc i + k) (rest ! k)"
      and at: "\<not> agrees_at py (Suc i + j0) (rest ! j0)"
      and err: "fst (read_rows py sc keys (Suc i) rest (fst ?acc) (snd ?acc)) =
                  Some (IterationMismatch (Suc i + j0))"
      and out: "snd (snd (read_rows py sc keys (Suc i) rest (fst ?acc) (snd ?acc))) =
                  snd ?acc @ diagnostics py keys (take (Suc j0) rest)"
      by auto
    have before': "\<forall>k < Suc j0. agrees_at py (i + k) ((r # rest) ! k)"
    proof (intro allI impI)
      fix k
      assume "k < Suc j0"
      with True before show "agrees_at py (i + k) ((r # rest) ! k)"
        by (cases k) simp_all
    qed
    show ?thesis
      by (rule exI [of _ "Suc j0"])
         (use j0 before' at err out in \<open>simp add: step o diagnostics_def del: read_rows.simps\<close>)
  next
    case False
    have res: "fst (read_rows py sc keys i (r # rest) data out) =
        Some (if xs = [] \<and> parsed py r ''iteration'' = None
              then IndexError else IterationMismatch i) \<and>
      snd (snd (read_rows py sc keys i (r # rest) data out)) = snd ?acc"
    proof (cases "parsed py r ''iteration''")
      case (Some v)
      with False have "py_ne py v i"
        by (simp add: agrees_at_def)
      moreover have "?its \<noteq> []" and "last ?its = v"
        using restored_row_iteration(1) [OF it Some] restored_row_iteration(2) [OF it Some, of xs]
        by simp_all
      ultimately show ?thesis
        using Some by (simp add: read_rows_Cons Let_def mi del: read_rows.simps)
    next
      case None
      then have its: "?its = xs"
        by (simp add: restored_row_def)
      show ?thesis
      proof (cases "xs = []")
        case True
        with None its show ?thesis
          by (simp add: read_rows_Cons Let_def mi del: read_rows.simps)
      next
        case nonempty: False
        with Cons.prems(4) obtain i0 where "i0 < i" and "\<not> py_ne py (last xs) i0"
          by auto
        with coh have "py_ne py (last xs) i"
          unfolding coherent_def by (metis less_irrefl)
        with nonempty None its show ?thesis
          by (simp add: read_rows_Cons Let_def mi del: read_rows.simps)
      qed
    qed
    show ?thesis
      by (rule exI [of _ 0])
         (use False res in \<open>simp add: o diagnostics_def del: read_rows.simps\<close>)
  qed
qed

lemma map_of_empty_series:
  "map_of (empty_series keys) k = (if k \<in> set keys then Some [] else None)"
proof -
  have "map_of (fold (\<lambda>key data. AList.update key [] data) keys d) k =
        (if k \<in> set keys then Some [] else map_of d k)" for d :: "(string \<times> 'a list) list"
    by (induction keys arbitrary: d) (simp_all add: update_conv')
  then show ?thesis
    by (simp add: empty_series_def)
qed

lemma py_max_None: "py_max ns = None \<longleftrightarrow> ns = []"
  by (cases ns) simp_all

text \<open>
  Claim C6. Let \<^verbatim>\<open>read_log\<close> read a table with a header from a path that ends in
  \<^verbatim>\<open>log.csv\<close>, and let the fields of the table be scalars. If the table has an
  iteration column and some row holds an iteration value that disagrees with the
  row's position, the call raises (the mismatch error, or an index error) and the
  log is left as it was: nothing is recovered. If the iteration column is absent or
  agrees in every row, the call succeeds whatever the other fields hold: a
  malformed field is skipped with a diagnostic, and the fields after it in the row
  are still restored. If the iteration column is there and does not agree in every
  row, and the comparison is coherent, the call raises at the first row whose
  iteration field does not agree, be it a differing value or a malformed field: an
  index error when that is the first row and its iteration field is malformed, the
  mismatch error with the row's number otherwise. The log is left as it was, and the
  diagnostics are those of the malformed fields of the rows up to and including
  that row, so the malformed fields before the fatal check were skipped one by one
  and the rest of their rows was read.
\<close>

theorem read_log_fatal_or_skipping:
  assumes "endswith log_path ''log.csv''"
    and "fs log_path = Some table"
    and "fieldnames table = Some keys"
    and "scalar_table py keys (csv_rows table)"
  shows "(''iteration'' \<in> set keys \<and>
          (\<exists>j < length (csv_rows table). \<exists>v.
              parsed py (csv_rows table ! j) ''iteration'' = Some v \<and> py_ne py v j) \<longrightarrow>
            (\<exists>e. fst (read_log py fs log_path self) = Some e \<and>
                 (e = IndexError \<or> (\<exists>j'. e = IterationMismatch j'))) \<and>
            fst (snd (read_log py fs log_path self)) = self) \<and>
         (keys \<noteq> [] \<and> (''iteration'' \<notin> set keys \<or> iteration_agrees py 0 (csv_rows table)) \<longrightarrow>
            fst (read_log py fs log_path self) = None \<and>
            (\<forall>k. map_of (log (fst (snd (read_log py fs log_path self)))) k =
                   (if k \<in> set keys then Some (restored_series py keys (csv_rows table) k)
                    else None)) \<and>
            (\<exists>m. snd (snd (read_log py fs log_path self)) =
                   diagnostics py keys (csv_rows table) @ [LogRead log_path m])) \<and>
         (coherent py \<and> ''iteration'' \<in> set keys \<and>
          \<not> iteration_agrees py 0 (csv_rows table) \<longrightarrow>
            (\<exists>j < length (csv_rows table).
                (\<forall>i < j. agrees_at py i (csv_rows table ! i)) \<and>
                \<not> agrees_at py j (csv_rows table ! j) \<and>
                read_log py fs log_path self =
                  (Some (if j = 0 \<and> parsed py (csv_rows table ! 0) ''iteration'' = None
                         then IndexError else IterationMismatch j),
                   self,
                   diagnostics py keys (take (Suc j) (csv_rows table)))))"
proof (intro conjI impI)
  let ?rows = "csv_rows table"
  let ?sc = "\<lparr>sc_self = self, sc_log_path = log_path, sc_listr = ?rows,
              sc_keys = keys, sc_data = empty_series keys, sc_row = 0,
              sc_row_dict = (\<lambda>key. None), sc_key = []\<rparr>"
  let ?rr = "read_rows py ?sc keys 0 ?rows (empty_series keys) []"
  have rl: "read_log py fs log_path self =
     (case ?rr of
        (Some e, data, out) \<Rightarrow> (Some e, self, out)
      | (None, data, out) \<Rightarrow>
          (case py_max (map (\<lambda>(k, v). length v) data) of
             None \<Rightarrow> (Some ValueError, self\<lparr>log := data\<rparr>, out)
           | Some m \<Rightarrow> (None, self\<lparr>log := data, max_len := int m\<rparr>, out @ [LogRead log_path m])))"
    using assms(1-3) by (simp add: read_log_def)
  have dom: "\<forall>k. (map_of (empty_series keys :: (string \<times> 'a list) list) k \<noteq> None) = (k \<in> set keys)"
    by (simp add: map_of_empty_series)
  {
    assume a: "''iteration'' \<in> set keys \<and>
          (\<exists>j < length ?rows. \<exists>v. parsed py (?rows ! j) ''iteration'' = Some v \<and> py_ne py v j)"
    then obtain j v where j: "j < length ?rows"
      and v: "parsed py (?rows ! j) ''iteration'' = Some v" and ne: "py_ne py v (0 + j)"
      by auto
    from a have "map_of (empty_series keys :: (string \<times> 'a list) list) ''iteration'' \<noteq> None"
      by (simp add: map_of_empty_series)
    from read_rows_fatal [OF conjunct1 [OF a] assms(4) this j v ne, of ?sc "[]"]
    obtain e where e: "fst ?rr = Some e"
      and k: "e = IndexError \<or> (\<exists>j'. e = IterationMismatch j')"
      by auto
    from e show "\<exists>e. fst (read_log py fs log_path self) = Some e \<and>
                 (e = IndexError \<or> (\<exists>j'. e = IterationMismatch j'))"
      using k by (cases ?rr) (auto simp add: rl)
    from e show "fst (snd (read_log py fs log_path self)) = self"
      by (cases ?rr) (auto simp add: rl)
  }
  {
    assume b: "keys \<noteq> [] \<and> (''iteration'' \<notin> set keys \<or> iteration_agrees py 0 ?rows)"
    from read_rows_ok [OF assms(4) dom conjunct2 [OF b], of ?sc "[]"]
    have f: "fst ?rr = None"
      and m: "\<And>k. map_of (fst (snd ?rr)) k =
                (if k \<in> set keys then Some (restored_series py keys ?rows k) else None)"
      and o: "snd (snd ?rr) = diagnostics py keys ?rows"
      by (simp_all add: map_of_empty_series)
    from b obtain k0 where "k0 \<in> set keys"
      by (cases keys) auto
    with m [of k0] have "fst (snd ?rr) \<noteq> []"
      by auto
    then obtain mx where mx: "py_max (map (\<lambda>(k, v). length v) (fst (snd ?rr))) = Some mx"
      using py_max_None [of "map (\<lambda>(k, v). length v) (fst (snd ?rr))"] by auto
    from f mx have res: "read_log py fs log_path self =
        (None, self\<lparr>log := fst (snd ?rr), max_len := int mx\<rparr>, snd (snd ?rr) @ [LogRead log_path mx])"
      by (cases ?rr) (auto simp add: rl)
    show "fst (read_log py fs log_path self) = None"
      by (simp add: res)
    show "\<forall>k. map_of (log (fst (snd (read_log py fs log_path self)))) k =
                   (if k \<in> set keys then Some (restored_series py keys ?rows k) else None)"
      by (simp add: res m)
    show "\<exists>m. snd (snd (read_log py fs log_path self)) =
                   diagnostics py keys ?rows @ [LogRead log_path m]"
      by (simp add: res o)
  }
  {
    assume c: "coherent py \<and> ''iteration'' \<in> set keys \<and> \<not> iteration_agrees py 0 ?rows"
    then have coh: "coherent py" and it: "''iteration'' \<in> set keys"
      and bad: "\<not> iteration_agrees py 0 ?rows"
      by simp_all
    have e0: "map_of (empty_series keys :: (string \<times> 'a list) list) ''iteration'' = Some []"
      using it by (simp add: map_of_empty_series)
    have pre: "([] :: 'a list) \<noteq> [] \<longrightarrow> (\<exists>i0 < 0. \<not> py_ne py (last []) i0)"
      by simp
    from read_rows_first_bad [OF it coh assms(4) dom e0 pre bad, of ?sc "[]"]
    obtain j where j: "j < length ?rows"
      and before: "\<forall>i < j. agrees_at py i (?rows ! i)"
      and at: "\<not> agrees_at py j (?rows ! j)"
      and err: "fst ?rr = Some (if j = 0 \<and> parsed py (?rows ! 0) ''iteration'' = None
                                then IndexError else IterationMismatch j)"
      and out: "snd (snd ?rr) = diagnostics py keys (take (Suc j) ?rows)"
      by auto
    from err out have "read_log py fs log_path self =
        (Some (if j = 0 \<and> parsed py (?rows ! 0) ''iteration'' = None
               then IndexError else IterationMismatch j),
         self, diagnostics py keys (take (Suc j) ?rows))"
      by (cases ?rr) (auto simp add: rl)
    with j before at
    show "\<exists>j < length ?rows.
                (\<forall>i < j. agrees_at py i (?rows ! i)) \<and> \<not> agrees_at py j (?rows ! j) \<and>
                read_log py fs log_path self =
                  (Some (if j = 0 \<and> parsed py (?rows ! 0) ''iteration'' = None
                         then IndexError else IterationMismatch j),
                   self, diagnostics py keys (take (Suc j) ?rows))"
      by blast
  }
qed

lemmas read_log_eval =
  read_log_def endswith_def demo_fs_def good_table_def bad_table_def torn_table_def
  headless_table_def scoped_table_def empty_series_def read_field_def append_entry_def
  demo_python_def eval_literal_def digit_value_def DataLog_init_def

lemmas table_eval =
  endswith_def demo_fs_def good_table_def bad_table_def torn_table_def headless_table_def
  scalar_table_def scalar_row_def scope_free_def iteration_agrees_def agrees_at_def
  parsed_def no_scope_def demo_python_def eval_literal_def digit_value_def
  enumerate_eq_zip upt_rec

lemma demo_python_coherent: "coherent demo_python"
  by (simp add: coherent_def demo_python_def)

theorem read_log_fatal_or_skipping_witness:
  "coherent demo_python \<and>
   endswith ''bad/log.csv'' ''log.csv'' \<and> demo_fs ''bad/log.csv'' = Some bad_table \<and>
   fieldnames bad_table = Some [''iteration'', ''reward''] \<and>
   scalar_table demo_python [''iteration'', ''reward''] (csv_rows bad_table) \<and>
   parsed demo_python (csv_rows bad_table ! 1) ''iteration'' = Some 5 \<and>
   py_ne demo_python 5 1 \<and>
   read_log demo_python demo_fs ''bad/log.csv'' DataLog_init =
     (Some (IterationMismatch 1), DataLog_init, []) \<and>
   endswith ''good/log.csv'' ''log.csv'' \<and> demo_fs ''good/log.csv'' = Some good_table \<and>
   fieldnames good_table = Some [''iteration'', ''reward''] \<and>
   scalar_table demo_python [''iteration'', ''reward''] (csv_rows good_table) \<and>
   iteration_agrees demo_python 0 (csv_rows good_table) \<and>
   read_log demo_python demo_fs ''good/log.csv'' DataLog_init =
     (None,
      \<lparr>use_wandb = False, log = [(''iteration'', [0, 1, 2]), (''reward'', [5])],
       max_len = 3, global_step = 0\<rparr>,
      [ReadError ''reward'' (Some ''n/a''), ReadError ''reward'' None,
       LogRead ''good/log.csv'' 3]) \<and>
   endswith ''torn/log.csv'' ''log.csv'' \<and> demo_fs ''torn/log.csv'' = Some torn_table \<and>
   fieldnames torn_table = Some [''iteration'', ''reward''] \<and>
   scalar_table demo_python [''iteration'', ''reward''] (csv_rows torn_table) \<and>
   \<not> iteration_agrees demo_python 0 (csv_rows torn_table) \<and>
   read_log demo_python demo_fs ''torn/log.csv'' DataLog_init =
     (Some (IterationMismatch 1), DataLog_init, [ReadError ''iteration'' (Some ''x'')]) \<and>
   endswith ''headless/log.csv'' ''log.csv'' \<and>
   demo_fs ''headless/log.csv'' = Some headless_table \<and>
   fieldnames headless_table = Some [''iteration'', ''reward''] \<and>
   scalar_table demo_python [''iteration'', ''reward''] (csv_rows headless_table) \<and>
   \<not> iteration_agrees demo_python 0 (csv_rows headless_table) \<and>
   read_log demo_python demo_fs ''headless/log.csv'' DataLog_init =
     (Some IndexError, DataLog_init,
      [ReadError ''iteration'' (Some ''01''), ReadError ''reward'' (Some ''n/a'')])"
proof -
  have b1: "endswith ''bad/log.csv'' ''log.csv''"
    and b2: "demo_fs ''bad/log.csv'' = Some bad_table"
    and b3: "fieldnames bad_table = Some [''iteration'', ''reward'']"
    and b4: "scalar_table demo_python [''iteration'', ''reward''] (csv_rows bad_table)"
    and b5: "parsed demo_python (csv_rows bad_table ! 1) ''iteration'' = Some 5"
    and b6: "py_ne demo_python 5 1"
    by (simp_all add: table_eval)
  have g1: "endswith ''good/log.csv'' ''log.csv''"
    and g2: "demo_fs ''good/log.csv'' = Some good_table"
    and g3: "fieldnames good_table = Some [''iteration'', ''reward'']"
    and g4: "scalar_table demo_python [''iteration'', ''reward''] (csv_rows good_table)"
    and g5: "iteration_agrees demo_python 0 (csv_rows good_table)"
    by (simp_all add: table_eval)
  have t1: "endswith ''torn/log.csv'' ''log.csv''"
    and t2: "demo_fs ''torn/log.csv'' = Some torn_table"
    and t3: "fieldnames torn_table = Some [''iteration'', ''reward'']"
    and t4: "scalar_table demo_python [''iteration'', ''reward''] (csv_rows torn_table)"
    and t5: "\<not> iteration_agrees demo_python 0 (csv_rows torn_table)"
    by (simp_all add: table_eval)
  have h1: "endswith ''headless/log.csv'' ''log.csv''"
    and h2: "demo_fs ''headless/log.csv'' = Some headless_table"
    and h3: "fieldnames headless_table = Some [''iteration'', ''reward'']"
    and h4: "scalar_table demo_python [''iteration'', ''reward''] (csv_rows headless_table)"
    and h5: "\<not> iteration_agrees demo_python 0 (csv_rows headless_table)"
    by (simp_all add: table_eval)
  have len: "1 < length (csv_rows bad_table)"
    by (simp add: bad_table_def)
  from read_log_fatal_or_skipping [where fs = demo_fs and py = demo_python
      and self = "DataLog_init :: nat DataLog", OF b1 b2 b3 b4, THEN conjunct1] len b5 b6
  have bad: "fst (read_log demo_python demo_fs ''bad/log.csv'' DataLog_init) \<noteq> None \<and>
             fst (snd (read_log demo_python demo_fs ''bad/log.csv'' DataLog_init)) = DataLog_init"
    by auto
  from read_log_fatal_or_skipping [where fs = demo_fs and py = demo_python
      and self = "DataLog_init :: nat DataLog", OF g1 g2 g3 g4, THEN conjunct2, THEN conjunct1] g5
  have good: "fst (read_log demo_python demo_fs ''good/log.csv'' DataLog_init) = None"
    by simp
  from read_log_fatal_or_skipping [where fs = demo_fs and py = demo_python
      and self = "DataLog_init :: nat DataLog", OF t1 t2 t3 t4, THEN conjunct2, THEN conjunct2]
    demo_python_coherent t5
  have torn: "fst (snd (read_log demo_python demo_fs ''torn/log.csv'' DataLog_init)) = DataLog_init"
    by auto
  from read_log_fatal_or_skipping [where fs = demo_fs and py = demo_python
      and self = "DataLog_init :: nat DataLog", OF h1 h2 h3 h4, THEN conjunct2, THEN conjunct2]
    demo_python_coherent h5
  have headless:
    "fst (snd (read_log demo_python demo_fs ''headless/log.csv'' DataLog_init)) = DataLog_init"
    by auto
  have "read_log demo_python demo_fs ''bad/log.csv'' DataLog_init =
          (Some (IterationMismatch 1), DataLog_init, [])"
    using bad by (simp add: read_log_eval)
  moreover have "read_log demo_python demo_fs ''good/log.csv'' DataLog_init =
     (None,
      \<lparr>use_wandb = False, log = [(''iteration'', [0, 1, 2]), (''reward'', [5])],
       max_len = 3, global_step = 0\<rparr>,
      [ReadError ''reward'' (Some ''n/a''), ReadError ''reward'' None,
       LogRead ''good/log.csv'' 3])"
    using good by (simp add: read_log_eval)
  moreover have "read_log demo_python demo_fs ''torn/log.csv'' DataLog_init =
     (Some (IterationMismatch 1), DataLog_init, [ReadError ''iteration'' (Some ''x'')])"
    using torn by (simp add: read_log_eval)
  moreover have "read_log demo_python demo_fs ''headless/log.csv'' DataLog_init =
     (Some IndexError, DataLog_init,
      [ReadError ''iteration'' (Some ''01''), ReadError ''reward'' (Some ''n/a'')])"
    using headless by (simp add: read_log_eval)
  ultimately show ?thesis
    using demo_python_coherent b1 b2 b3 b4 b5 b6 g1 g2 g3 g4 g5 t1 t2 t3 t4 t5 h1 h2 h3 h4 h5
    by simp
qed

text \<open>
  A field that is an expression over the variables of \<^verbatim>\<open>read_log\<close> is evaluated in
  their scope: in a table whose iteration fields are the text \<^verbatim>\<open>row\<close>, each of them
  is read as the number of its row.
\<close>

lemma read_log_evaluates_in_scope:
  "read_log demo_python demo_fs ''scoped/log.csv'' DataLog_init =
     (None,
      \<lparr>use_wandb = False, log = [(''iteration'', [0, 1]), (''reward'', [5, 1])],
       max_len = 2, global_step = 0\<rparr>,
      [LogRead ''scoped/log.csv'' 2])"
  by (simp add: read_log_eval)

end
